theory Spec2Isabelle
  imports Complex_Main
begin

section \<open>Numbers\<close>

text \<open>
  The calculator is written in TypeScript; every quantity is a \<open>number\<close>, an IEEE 754
  binary64 value. The embedding reads a number as a real and the arithmetic operators as
  exact arithmetic on reals. The program and the embedding then agree up to rounding,
  except where the program subtracts nearly equal quantities, compares at equality or takes
  a floor at a step: there a rounding decides the result. \<open>binary64\<close> below is the rounding
  of the program's arithmetic; with it single expressions of the source are evaluated as
  the program evaluates them, and the statements on \<open>calculateMonthlyPayment\<close> and
  \<open>calculateMaxAffordablePrice\<close> carry the ranges in which no rounding decides. A
  division whose divisor can be zero, and a power whose base can be non-positive, are
  treated where they occur.
\<close>

definition Math_pow :: "real \<Rightarrow> real \<Rightarrow> real" where
  \<comment> \<open>\<open>Math.pow(x, y)\<close>. For a natural exponent it is the iterated product (also for a
     base that is zero or negative, and \<open>Math.pow(x, 0) = 1\<close>); for a positive base it is
     the real power. For a base \<open>\<le> 0\<close> with any other exponent JavaScript yields
     \<open>NaN\<close>, \<open>Infinity\<close> or a reciprocal, none of which this function gives: the theorems
     below stay inside the first two cases (or base \<open>0\<close> with a positive exponent).\<close>
  "Math_pow x y = (if 0 \<le> y \<and> y = of_int \<lfloor>y\<rfloor> then x ^ nat \<lfloor>y\<rfloor> else x powr y)"

definition Math_round :: "real \<Rightarrow> real" where
  \<comment> \<open>\<open>Math.round\<close>: the nearest integer, a half rounded up.\<close>
  "Math_round x = of_int \<lfloor>x + 1 / 2\<rfloor>"

definition round_half_even :: "real \<Rightarrow> int" where
  \<comment> \<open>The nearest integer, a half going to the even neighbour.\<close>
  "round_half_even x =
    (let f = \<lfloor>x\<rfloor>
     in if x - of_int f < 1 / 2 then f
        else if 1 / 2 < x - of_int f then f + 1
        else if even f then f else f + 1)"

definition binary64 :: "real \<Rightarrow> real" where
  \<comment> \<open>The binary64 number nearest to a real: 53 significant bits, a tie going to the
     even significand. This is the result that \<open>+\<close>, \<open>-\<close>, \<open>*\<close> and \<open>/\<close> of the program give
     for the exact result \<open>x\<close>, and the value of a decimal literal \<open>x\<close>. The range of the
     exponent is not modelled (magnitudes from \<open>2^(-1022)\<close> to \<open>2^1024\<close>).\<close>
  "binary64 x =
    (if x = 0 then 0
     else (let ulp = 2 powr (of_int \<lfloor>log 2 \<bar>x\<bar>\<rfloor> - 52)
           in of_int (round_half_even (x / ulp)) * ulp))"

text \<open>
  \<open>calculateMaxAffordablePrice\<close> divides by two quantities that are zero for inputs inside
  the stated ranges (a loan percentage of 0), so its quotients are JavaScript's: a number,
  an infinity or \<open>NaN\<close>. The sign of a zero divisor is not modelled (\<open>0 / 0\<close> is \<open>NaN\<close>
  whatever the signs; the statement on the function keeps the loan percentage at 1 or
  more, where no divisor is zero).
\<close>

datatype jsnum = Num real | PosInfinity | NegInfinity | NaN

definition js_div :: "real \<Rightarrow> real \<Rightarrow> jsnum" where
  "js_div a b =
    (if b \<noteq> 0 then Num (a / b)
     else if a > 0 then PosInfinity
     else if a < 0 then NegInfinity
     else NaN)"

fun Math_min :: "jsnum \<Rightarrow> jsnum \<Rightarrow> jsnum" where
  "Math_min NaN _ = NaN"
| "Math_min _ NaN = NaN"
| "Math_min NegInfinity _ = NegInfinity"
| "Math_min _ NegInfinity = NegInfinity"
| "Math_min PosInfinity y = y"
| "Math_min x PosInfinity = x"
| "Math_min (Num a) (Num b) = Num (min a b)"

fun floor_to_multiple :: "jsnum \<Rightarrow> real \<Rightarrow> jsnum" where
  \<comment> \<open>\<open>Math.floor(x / m) * m\<close> for a positive constant \<open>m\<close>: an infinity and \<open>NaN\<close>
     pass through the division, the floor and the product.\<close>
  "floor_to_multiple (Num x) m = Num (of_int \<lfloor>x / m\<rfloor> * m)"
| "floor_to_multiple x m = x"

fun js_le :: "jsnum \<Rightarrow> jsnum \<Rightarrow> bool" where
  \<comment> \<open>JavaScript's \<open><=\<close>: false as soon as one side is \<open>NaN\<close>.\<close>
  "js_le NaN _ = False"
| "js_le _ NaN = False"
| "js_le NegInfinity _ = True"
| "js_le _ PosInfinity = True"
| "js_le (Num a) (Num b) = (a \<le> b)"
| "js_le _ _ = False"

section \<open>\<open>src/utils/calculations.ts\<close>\<close>

definition calculateBSD :: "real \<Rightarrow> real" where
  "calculateBSD price =
    (let bsd = 0;
         bsd = (if price > 0 then bsd + min price 180000 * 0.01 else bsd);
         bsd = (if price > 180000 then bsd + min (price - 180000) 180000 * 0.02 else bsd);
         bsd = (if price > 360000 then bsd + min (price - 360000) 640000 * 0.03 else bsd);
         bsd = (if price > 1000000 then bsd + min (price - 1000000) 500000 * 0.04 else bsd);
         bsd = (if price > 1500000 then bsd + min (price - 1500000) 1500000 * 0.05 else bsd);
         bsd = (if price > 3000000 then bsd + (price - 3000000) * 0.06 else bsd)
     in bsd)"

definition calculateABSD :: "real \<Rightarrow> string \<Rightarrow> real \<Rightarrow> real" where
  \<comment> \<open>\<open>status\<close> and \<open>propertyNumber\<close> are a string and a number when the program runs: the
     union types \<open>ResidencyStatus\<close> and \<open>PropertyNumber\<close> are erased by the compiler, and
     \<open>decodeStateFromUrl\<close> stores whatever the query string holds.\<close>
  "calculateABSD price status propertyNumber =
    (let rate =
       (if status = ''citizen'' then
          (if propertyNumber = 1 then 0
           else if propertyNumber = 2 then 0.20
           else 0.30)
        else if status = ''pr'' then
          (if propertyNumber = 1 then 0.05
           else if propertyNumber = 2 then 0.30
           else 0.35)
        else 0.60)
     in price * rate)"

definition getABSDRate :: "string \<Rightarrow> real \<Rightarrow> real" where
  "getABSDRate status propertyNumber =
    (if status = ''citizen'' then
       (if propertyNumber = 1 then 0
        else if propertyNumber = 2 then 20
        else 30)
     else if status = ''pr'' then
       (if propertyNumber = 1 then 5
        else if propertyNumber = 2 then 30
        else 35)
     else 60)"

definition calculateLegalFees :: "real \<Rightarrow> real" where
  "calculateLegalFees price =
    (if price \<le> 1000000 then 2500
     else if price \<le> 2000000 then 3000
     else if price \<le> 3000000 then 3500
     else 5000)"

definition calculateSSD :: "real \<Rightarrow> real \<Rightarrow> real" where
  "calculateSSD price yearsHeld =
    (if yearsHeld \<ge> 3 then 0
     else if yearsHeld < 1 then price * 0.12
     else if yearsHeld < 2 then price * 0.08
     else price * 0.04)"

definition calculatePropertyTax :: "real \<Rightarrow> bool \<Rightarrow> real" where
  "calculatePropertyTax annualRent isOwnerOccupied =
    (let av = annualRent in
     if isOwnerOccupied then
       (let tax = 0;
            tax = (if av > 0 then tax + min av 8000 * 0 else tax);
            tax = (if av > 8000 then tax + min (av - 8000) 22000 * 0.04 else tax);
            tax = (if av > 30000 then tax + min (av - 30000) 10000 * 0.06 else tax);
            tax = (if av > 40000 then tax + min (av - 40000) 15000 * 0.10 else tax);
            tax = (if av > 55000 then tax + min (av - 55000) 15000 * 0.14 else tax);
            tax = (if av > 70000 then tax + min (av - 70000) 15000 * 0.20 else tax);
            tax = (if av > 85000 then tax + min (av - 85000) 15000 * 0.26 else tax);
            tax = (if av > 100000 then tax + (av - 100000) * 0.32 else tax)
        in tax)
     else
       (let tax = 0;
            tax = (if av > 0 then tax + min av 30000 * 0.12 else tax);
            tax = (if av > 30000 then tax + min (av - 30000) 15000 * 0.20 else tax);
            tax = (if av > 45000 then tax + min (av - 45000) 15000 * 0.28 else tax);
            tax = (if av > 60000 then tax + (av - 60000) * 0.36 else tax)
        in tax))"

definition calculateMonthlyPayment :: "real \<Rightarrow> real \<Rightarrow> real \<Rightarrow> real" where
  \<comment> \<open>Both divisors are non-zero when \<open>years\<close> is positive and \<open>annualRate\<close> is not
     negative. With \<open>years = 0\<close> JavaScript divides by zero (\<open>Infinity\<close> or \<open>NaN\<close>),
     which the quotient of HOL does not show: the theorems keep \<open>years\<close> away from 0.
     (\<open>principal'\<close> is the source's \<open>principal\<close>, a name HOL has taken.)\<close>
  "calculateMonthlyPayment principal' annualRate years =
    (if principal' = 0 then 0
     else if annualRate = 0 then principal' / (years * 12)
     else
       (let monthlyRate = annualRate / 100 / 12;
            numPayments = years * 12
        in principal' * (monthlyRate * Math_pow (1 + monthlyRate) numPayments)
             / (Math_pow (1 + monthlyRate) numPayments - 1)))"

definition zero_rate_interest_binary64 :: "real \<Rightarrow> real \<Rightarrow> real" where
  \<comment> \<open>\<open>calculateMonthlyPayment(principal, 0, years) * years * 12 - principal\<close> as the
     program evaluates it for a principal other than 0: the payment is the quotient
     \<open>principal / (years * 12)\<close> of the zero-rate branch, and each of the five operations
     is rounded.\<close>
  "zero_rate_interest_binary64 principal' years =
     binary64 (binary64 (binary64 (binary64 (principal' / binary64 (years * 12)) * years) * 12)
       - principal')"

definition calculateTDSR :: "real \<Rightarrow> real \<Rightarrow> real \<Rightarrow> real" where
  "calculateTDSR monthlyPayment existingDebt monthlyIncome =
    (if monthlyIncome = 0 then 0
     else ((monthlyPayment + existingDebt) / monthlyIncome) * 100)"

definition calculateCpfAccruedInterest :: "real \<Rightarrow> real \<Rightarrow> real" where
  "calculateCpfAccruedInterest cpfUsed years =
    (if cpfUsed = 0 \<or> years = 0 then 0
     else cpfUsed * (Math_pow 1.025 years - 1))"

definition calculateRentalIncomeTax :: "real \<Rightarrow> real \<Rightarrow> real \<Rightarrow> real" where
  "calculateRentalIncomeTax grossRent mortgageInterest marginalTaxRate =
    (let deemedExpenses = grossRent * 0.15;
         taxableIncome = max 0 (grossRent - deemedExpenses - mortgageInterest)
     in taxableIncome * (marginalTaxRate / 100))"

definition estimateMonthlyRental :: "real \<Rightarrow> real" where
  "estimateMonthlyRental price =
    (let avgYield = 0.032 in Math_round ((price * avgYield) / 12 / 100) * 100)"

definition estimateCurrentRent :: "real \<Rightarrow> real" where
  "estimateCurrentRent price =
    (let rentMultiplier = 0.035 in Math_round ((price * rentMultiplier) / 12 / 100) * 100)"

text \<open>
  The local constants of \<open>calculateMaxAffordablePrice\<close> are definitions of their own, so
  that a statement can name the two bounds.
\<close>

definition maxFromCashCpf :: "real \<Rightarrow> real \<Rightarrow> real \<Rightarrow> jsnum" where
  "maxFromCashCpf cashAvailable cpfOaBalance loanPercentage =
    (let downpaymentPercent = (100 - loanPercentage) / 100
     in js_div (cashAvailable + cpfOaBalance * 0.95) (downpaymentPercent + 0.05))"

definition maxMonthlyPayment :: "real \<Rightarrow> real \<Rightarrow> real" where
  "maxMonthlyPayment monthlyIncome existingDebt = monthlyIncome * 0.55 - existingDebt"

definition maxLoan :: "real \<Rightarrow> real \<Rightarrow> real \<Rightarrow> real \<Rightarrow> real" where
  "maxLoan monthlyIncome existingDebt interestRate loanTenure =
    (let monthlyRate = interestRate / 100 / 12;
         numPayments = loanTenure * 12
     in if monthlyRate > 0
        then maxMonthlyPayment monthlyIncome existingDebt
               * (1 - Math_pow (1 + monthlyRate) (- numPayments)) / monthlyRate
        else maxMonthlyPayment monthlyIncome existingDebt * numPayments)"

definition maxFromTDSR :: "real \<Rightarrow> real \<Rightarrow> real \<Rightarrow> real \<Rightarrow> real \<Rightarrow> jsnum" where
  "maxFromTDSR monthlyIncome existingDebt loanPercentage interestRate loanTenure =
    js_div (maxLoan monthlyIncome existingDebt interestRate loanTenure) (loanPercentage / 100)"

definition calculateMaxAffordablePrice ::
  "real \<Rightarrow> real \<Rightarrow> real \<Rightarrow> real \<Rightarrow> real \<Rightarrow> real \<Rightarrow> real \<Rightarrow> jsnum" where
  "calculateMaxAffordablePrice cashAvailable cpfOaBalance monthlyIncome existingDebt
      loanPercentage interestRate loanTenure =
    (if maxMonthlyPayment monthlyIncome existingDebt \<le> 0 then Num 0
     else floor_to_multiple
            (Math_min (maxFromCashCpf cashAvailable cpfOaBalance loanPercentage)
               (maxFromTDSR monthlyIncome existingDebt loanPercentage interestRate loanTenure))
            50000)"

text \<open>
  A bound is clear of the steps of the floor when no multiple of 50,000 lies within a
  millionth of it: a relative change of the bound of up to a millionth, which the rounding
  of the program's arithmetic stays far below, does not change
  \<open>Math.floor(bound / 50000)\<close>.
\<close>

definition clear_of_step :: "real \<Rightarrow> bool" where
  "clear_of_step x \<longleftrightarrow>
     \<lfloor>x * (1 - 1 / 10 ^ 6) / 50000\<rfloor> = \<lfloor>x * (1 + 1 / 10 ^ 6) / 50000\<rfloor>"

section \<open>The input record (\<open>src/types.ts\<close>, \<open>src/utils/constants.ts\<close>)\<close>

text \<open>
  The fields of \<open>PropertyInputs\<close>, in the order of the interface and of the object literal
  \<open>DEFAULT_INPUTS\<close>. The two union types of string literals are strings and the
  \<open>PropertyNumber\<close> is a number, as they are when the program runs.
\<close>

record PropertyInputs =
  price :: real
  residencyStatus :: string
  propertyType :: string
  propertyNumber :: real
  expectedRentalYield :: real
  holdingPeriodYears :: real
  annualAppreciation :: real
  loanPercentage :: real
  loanInterestRate :: real
  loanTenureYears :: real
  monthlyIncome :: real
  monthlyCondoFees :: real
  isRentingOut :: bool
  cashAvailable :: real
  cpfOaBalance :: real
  useCpfForDownpayment :: bool
  useCpfForMonthly :: bool
  existingMonthlyDebt :: real
  marginalTaxRate :: real
  currentMonthlyRent :: real
  expectedMonthlyRental :: real
  rentOutRoom :: bool
  roomRentalIncome :: real
  annualWorkIncome :: real
  agentFeePercent :: real
  prevailingInterestRate :: real
  loanLockInYears :: real
  includeRenovation :: bool
  renovationCost :: real
  vacancyWeeksPerYear :: real

definition DEFAULT_PRICE :: real where
  "DEFAULT_PRICE = 1500000"

definition DEFAULT_INPUTS :: PropertyInputs where
  "DEFAULT_INPUTS = \<lparr>
     price = DEFAULT_PRICE,
     residencyStatus = ''pr'',
     propertyType = ''private'',
     propertyNumber = 1,
     expectedRentalYield = 3.2,
     holdingPeriodYears = 5,
     annualAppreciation = 3.0,
     loanPercentage = 75,
     loanInterestRate = 2.6,
     loanTenureYears = 30,
     monthlyIncome = 15000,
     monthlyCondoFees = 300,
     isRentingOut = False,
     cashAvailable = 500000,
     cpfOaBalance = 150000,
     useCpfForDownpayment = True,
     useCpfForMonthly = False,
     existingMonthlyDebt = 0,
     marginalTaxRate = 15,
     currentMonthlyRent = estimateCurrentRent DEFAULT_PRICE,
     expectedMonthlyRental = estimateMonthlyRental DEFAULT_PRICE,
     rentOutRoom = False,
     roomRentalIncome = 1500,
     annualWorkIncome = 185000,
     agentFeePercent = 2,
     prevailingInterestRate = 2.8,
     loanLockInYears = 2,
     includeRenovation = False,
     renovationCost = 50000,
     vacancyWeeksPerYear = 4
   \<rparr>"

section \<open>\<open>src/utils/url-state.ts\<close>\<close>

datatype jsval = JNumber real | JBoolean bool | JString string

definition Object_entries :: "PropertyInputs \<Rightarrow> (string \<times> jsval) list" where
  \<comment> \<open>\<open>Object.entries(inputs)\<close>: the fields in the order of the object literal.\<close>
  "Object_entries inputs =
    [(''price'', JNumber (price inputs)),
     (''residencyStatus'', JString (residencyStatus inputs)),
     (''propertyType'', JString (propertyType inputs)),
     (''propertyNumber'', JNumber (propertyNumber inputs)),
     (''expectedRentalYield'', JNumber (expectedRentalYield inputs)),
     (''holdingPeriodYears'', JNumber (holdingPeriodYears inputs)),
     (''annualAppreciation'', JNumber (annualAppreciation inputs)),
     (''loanPercentage'', JNumber (loanPercentage inputs)),
     (''loanInterestRate'', JNumber (loanInterestRate inputs)),
     (''loanTenureYears'', JNumber (loanTenureYears inputs)),
     (''monthlyIncome'', JNumber (monthlyIncome inputs)),
     (''monthlyCondoFees'', JNumber (monthlyCondoFees inputs)),
     (''isRentingOut'', JBoolean (isRentingOut inputs)),
     (''cashAvailable'', JNumber (cashAvailable inputs)),
     (''cpfOaBalance'', JNumber (cpfOaBalance inputs)),
     (''useCpfForDownpayment'', JBoolean (useCpfForDownpayment inputs)),
     (''useCpfForMonthly'', JBoolean (useCpfForMonthly inputs)),
     (''existingMonthlyDebt'', JNumber (existingMonthlyDebt inputs)),
     (''marginalTaxRate'', JNumber (marginalTaxRate inputs)),
     (''currentMonthlyRent'', JNumber (currentMonthlyRent inputs)),
     (''expectedMonthlyRental'', JNumber (expectedMonthlyRental inputs)),
     (''rentOutRoom'', JBoolean (rentOutRoom inputs)),
     (''roomRentalIncome'', JNumber (roomRentalIncome inputs)),
     (''annualWorkIncome'', JNumber (annualWorkIncome inputs)),
     (''agentFeePercent'', JNumber (agentFeePercent inputs)),
     (''prevailingInterestRate'', JNumber (prevailingInterestRate inputs)),
     (''loanLockInYears'', JNumber (loanLockInYears inputs)),
     (''includeRenovation'', JBoolean (includeRenovation inputs)),
     (''renovationCost'', JNumber (renovationCost inputs)),
     (''vacancyWeeksPerYear'', JNumber (vacancyWeeksPerYear inputs))]"

definition COMPRESSED_KEYS :: "(string \<times> string) list" where
  "COMPRESSED_KEYS =
    [(''price'', ''p''),
     (''residencyStatus'', ''rs''),
     (''propertyType'', ''pt''),
     (''propertyNumber'', ''pn''),
     (''expectedRentalYield'', ''ry''),
     (''holdingPeriodYears'', ''hp''),
     (''annualAppreciation'', ''aa''),
     (''loanPercentage'', ''lp''),
     (''loanInterestRate'', ''lr''),
     (''loanTenureYears'', ''lt''),
     (''monthlyIncome'', ''mi''),
     (''monthlyCondoFees'', ''cf''),
     (''isRentingOut'', ''ro''),
     (''cashAvailable'', ''ca''),
     (''cpfOaBalance'', ''cpf''),
     (''useCpfForDownpayment'', ''cd''),
     (''useCpfForMonthly'', ''cm''),
     (''existingMonthlyDebt'', ''ed''),
     (''marginalTaxRate'', ''tr''),
     (''currentMonthlyRent'', ''cr''),
     (''expectedMonthlyRental'', ''er''),
     (''rentOutRoom'', ''rr''),
     (''roomRentalIncome'', ''ri''),
     (''annualWorkIncome'', ''wi''),
     (''agentFeePercent'', ''af''),
     (''prevailingInterestRate'', ''pr''),
     (''loanLockInYears'', ''ll''),
     (''includeRenovation'', ''ir''),
     (''renovationCost'', ''rc''),
     (''vacancyWeeksPerYear'', ''vw'')]"

definition Object_fromEntries :: "(string \<times> string) list \<Rightarrow> (string \<rightharpoonup> string)" where
  \<comment> \<open>A later entry with the same key replaces an earlier one.\<close>
  "Object_fromEntries es = map_of (rev es)"

definition REVERSE_KEYS :: "string \<rightharpoonup> string" where
  "REVERSE_KEYS = Object_fromEntries (map (\<lambda>(k, v). (v, k)) COMPRESSED_KEYS)"

text \<open>
  A \<open>URLSearchParams\<close> is the list of its name-value pairs. \<open>set\<close> replaces the value of
  the first pair with the name and removes the others, or appends a new pair.
\<close>

type_synonym URLSearchParams = "(string \<times> string) list"

fun params_set :: "string \<Rightarrow> string \<Rightarrow> URLSearchParams \<Rightarrow> URLSearchParams" where
  "params_set k v [] = [(k, v)]"
| "params_set k v ((k', v') # ps) =
    (if k' = k then (k, v) # filter (\<lambda>(a, _). a \<noteq> k) ps
     else (k', v') # params_set k v ps)"

text \<open>
  Four functions of the platform are parameters of the codec: \<open>String\<close> on a number
  (\<open>numToString\<close>), \<open>parseFloat\<close> (\<open>None\<close> for \<open>NaN\<close>), \<open>URLSearchParams.toString\<close>
  and the parser of the \<open>URLSearchParams\<close> constructor. They format and read binary
  floating point and percent-encoded text, which the reals of this embedding do not have.
\<close>

definition js_String :: "(real \<Rightarrow> string) \<Rightarrow> jsval \<Rightarrow> string" where
  "js_String numToString value =
    (case value of
       JNumber x \<Rightarrow> numToString x
     | JBoolean b \<Rightarrow> (if b then ''true'' else ''false'')
     | JString s \<Rightarrow> s)"

definition encode_entry ::
  "(real \<Rightarrow> string) \<Rightarrow> string \<times> jsval \<Rightarrow> URLSearchParams \<Rightarrow> URLSearchParams" where
  \<comment> \<open>The body of the loop of \<open>encodeStateToUrl\<close>. A short key is truthy when it is a
     non-empty string.\<close>
  "encode_entry numToString entry params =
    (case entry of (key, value) \<Rightarrow>
      (case map_of COMPRESSED_KEYS key of
         None \<Rightarrow> params
       | Some shortKey \<Rightarrow>
           if shortKey \<noteq> [] then
             (case value of
                JBoolean b \<Rightarrow> params_set shortKey (if b then ''1'' else ''0'') params
              | _ \<Rightarrow> params_set shortKey (js_String numToString value) params)
           else params))"

definition encode_params :: "(real \<Rightarrow> string) \<Rightarrow> PropertyInputs \<Rightarrow> URLSearchParams" where
  \<comment> \<open>\<open>params\<close> when the loop of \<open>encodeStateToUrl\<close> has ended.\<close>
  "encode_params numToString inputs =
    fold (encode_entry numToString) (Object_entries inputs) []"

definition encodeStateToUrl ::
  "(real \<Rightarrow> string) \<Rightarrow> (URLSearchParams \<Rightarrow> string) \<Rightarrow> PropertyInputs \<Rightarrow> string" where
  "encodeStateToUrl numToString toString inputs = toString (encode_params numToString inputs)"

definition assign :: "string \<Rightarrow> jsval \<Rightarrow> PropertyInputs \<Rightarrow> PropertyInputs" where
  \<comment> \<open>\<open>result[fullKey] = v\<close>. The decoder stores a value of the type of the default it
     replaces, so a value is stored in a field of its own type; the record has no other
     field to receive it.\<close>
  "assign key v result =
    (case v of
       JNumber x \<Rightarrow>
           (if key = ''price'' then result\<lparr>price := x\<rparr>
            else if key = ''propertyNumber'' then result\<lparr>propertyNumber := x\<rparr>
            else if key = ''expectedRentalYield'' then result\<lparr>expectedRentalYield := x\<rparr>
            else if key = ''holdingPeriodYears'' then result\<lparr>holdingPeriodYears := x\<rparr>
            else if key = ''annualAppreciation'' then result\<lparr>annualAppreciation := x\<rparr>
            else if key = ''loanPercentage'' then result\<lparr>loanPercentage := x\<rparr>
            else if key = ''loanInterestRate'' then result\<lparr>loanInterestRate := x\<rparr>
            else if key = ''loanTenureYears'' then result\<lparr>loanTenureYears := x\<rparr>
            else if key = ''monthlyIncome'' then result\<lparr>monthlyIncome := x\<rparr>
            else if key = ''monthlyCondoFees'' then result\<lparr>monthlyCondoFees := x\<rparr>
            else if key = ''cashAvailable'' then result\<lparr>cashAvailable := x\<rparr>
            else if key = ''cpfOaBalance'' then result\<lparr>cpfOaBalance := x\<rparr>
            else if key = ''existingMonthlyDebt'' then result\<lparr>existingMonthlyDebt := x\<rparr>
            else if key = ''marginalTaxRate'' then result\<lparr>marginalTaxRate := x\<rparr>
            else if key = ''currentMonthlyRent'' then result\<lparr>currentMonthlyRent := x\<rparr>
            else if key = ''expectedMonthlyRental'' then result\<lparr>expectedMonthlyRental := x\<rparr>
            else if key = ''roomRentalIncome'' then result\<lparr>roomRentalIncome := x\<rparr>
            else if key = ''annualWorkIncome'' then result\<lparr>annualWorkIncome := x\<rparr>
            else if key = ''agentFeePercent'' then result\<lparr>agentFeePercent := x\<rparr>
            else if key = ''prevailingInterestRate'' then result\<lparr>prevailingInterestRate := x\<rparr>
            else if key = ''loanLockInYears'' then result\<lparr>loanLockInYears := x\<rparr>
            else if key = ''renovationCost'' then result\<lparr>renovationCost := x\<rparr>
            else if key = ''vacancyWeeksPerYear'' then result\<lparr>vacancyWeeksPerYear := x\<rparr>
            else result)
     | JBoolean b \<Rightarrow>
           (if key = ''isRentingOut'' then result\<lparr>isRentingOut := b\<rparr>
            else if key = ''useCpfForDownpayment'' then result\<lparr>useCpfForDownpayment := b\<rparr>
            else if key = ''useCpfForMonthly'' then result\<lparr>useCpfForMonthly := b\<rparr>
            else if key = ''rentOutRoom'' then result\<lparr>rentOutRoom := b\<rparr>
            else if key = ''includeRenovation'' then result\<lparr>includeRenovation := b\<rparr>
            else result)
     | JString s \<Rightarrow>
           (if key = ''residencyStatus'' then result\<lparr>residencyStatus := s\<rparr>
            else if key = ''propertyType'' then result\<lparr>propertyType := s\<rparr>
            else result))"

definition decode_entry ::
  "(string \<Rightarrow> real option) \<Rightarrow> PropertyInputs \<Rightarrow> string \<times> string
     \<Rightarrow> PropertyInputs \<Rightarrow> PropertyInputs" where
  \<comment> \<open>The body of the loop of \<open>decodeStateFromUrl\<close>. \<open>fullKey in defaults\<close> and
     \<open>typeof defaultValue\<close> are read off the entries of \<open>defaults\<close>. (A name that
     \<open>REVERSE_KEYS\<close> inherits from \<open>Object.prototype\<close> is not a key of \<open>defaults\<close>, and is
     skipped like an unknown one.)\<close>
  "decode_entry parseFloat defaults entry result =
    (case entry of (shortKey, value) \<Rightarrow>
      (case REVERSE_KEYS shortKey of
         None \<Rightarrow> result
       | Some fullKey \<Rightarrow>
           if fullKey \<noteq> [] then
             (case map_of (Object_entries defaults) fullKey of
                None \<Rightarrow> result
              | Some defaultValue \<Rightarrow>
                  (case defaultValue of
                     JBoolean _ \<Rightarrow> assign fullKey (JBoolean (value = ''1'')) result
                   | JNumber _ \<Rightarrow>
                       (case parseFloat value of
                          None \<Rightarrow> result
                        | Some parsed \<Rightarrow> assign fullKey (JNumber parsed) result)
                   | JString _ \<Rightarrow> assign fullKey (JString value) result))
           else result))"

definition decodeStateFromUrl ::
  "(string \<Rightarrow> real option) \<Rightarrow> URLSearchParams \<Rightarrow> PropertyInputs \<Rightarrow> PropertyInputs" where
  "decodeStateFromUrl parseFloat searchParams defaults =
    fold (decode_entry parseFloat defaults) searchParams defaults"

section \<open>The engine (\<open>src/App.tsx\<close>, the body of \<open>calculations\<close>)\<close>

text \<open>
  Each \<open>const\<close> of the body is a function of \<open>inputs\<close>, in the order of the source and
  under its name; the object the body returns collects them. The constants from
  \<open>affordabilityRatio\<close> to \<open>isOverStretched\<close>, \<open>totalAppreciationPercent\<close>,
  \<open>annualizedRoi\<close> and the returns of the other investments after \<open>breakEvenPrice\<close>
  are values for display that no statement below reads; they are left out.
\<close>

definition bsd :: "PropertyInputs \<Rightarrow> real" where
  "bsd inputs = calculateBSD (price inputs)"

definition absd :: "PropertyInputs \<Rightarrow> real" where
  "absd inputs = calculateABSD (price inputs) (residencyStatus inputs) (propertyNumber inputs)"

definition absdRate :: "PropertyInputs \<Rightarrow> real" where
  "absdRate inputs = getABSDRate (residencyStatus inputs) (propertyNumber inputs)"

definition legalFees :: "PropertyInputs \<Rightarrow> real" where
  "legalFees inputs = calculateLegalFees (price inputs)"

definition valuationFee :: real where
  "valuationFee = 500"

definition stampDutyOnMortgage :: "PropertyInputs \<Rightarrow> real" where
  "stampDutyOnMortgage inputs = (price inputs * loanPercentage inputs / 100) * 0.004"

definition fireInsurance :: real where
  "fireInsurance = 150"

definition homeInsurance :: real where
  "homeInsurance = 200"

definition totalStampDuty :: "PropertyInputs \<Rightarrow> real" where
  "totalStampDuty inputs = bsd inputs + absd inputs"

definition totalUpfrontCosts :: "PropertyInputs \<Rightarrow> real" where
  "totalUpfrontCosts inputs =
     totalStampDuty inputs + legalFees inputs + valuationFee + stampDutyOnMortgage inputs
      + (if includeRenovation inputs then renovationCost inputs else 0)"

definition loanAmount :: "PropertyInputs \<Rightarrow> real" where
  "loanAmount inputs = price inputs * (loanPercentage inputs / 100)"

definition downPayment :: "PropertyInputs \<Rightarrow> real" where
  "downPayment inputs = price inputs - loanAmount inputs"

definition monthlyPayment :: "PropertyInputs \<Rightarrow> real" where
  "monthlyPayment inputs =
     calculateMonthlyPayment (loanAmount inputs) (loanInterestRate inputs) (loanTenureYears inputs)"

definition totalLoanPaymentsFullTenure :: "PropertyInputs \<Rightarrow> real" where
  "totalLoanPaymentsFullTenure inputs = monthlyPayment inputs * loanTenureYears inputs * 12"

definition totalInterestPaid :: "PropertyInputs \<Rightarrow> real" where
  "totalInterestPaid inputs = totalLoanPaymentsFullTenure inputs - loanAmount inputs"

definition minCashDownpayment :: "PropertyInputs \<Rightarrow> real" where
  "minCashDownpayment inputs = price inputs * 0.05"

definition maxCpfForDownpayment :: "PropertyInputs \<Rightarrow> real" where
  "maxCpfForDownpayment inputs = (if useCpfForDownpayment inputs
     then min (cpfOaBalance inputs) (downPayment inputs - minCashDownpayment inputs)
     else 0)"

definition cpfUsedForDownpayment :: "PropertyInputs \<Rightarrow> real" where
  "cpfUsedForDownpayment inputs = max 0 (maxCpfForDownpayment inputs)"

definition cashForDownpayment :: "PropertyInputs \<Rightarrow> real" where
  "cashForDownpayment inputs = downPayment inputs - cpfUsedForDownpayment inputs"

definition monthlyFromCpf :: "PropertyInputs \<Rightarrow> real" where
  "monthlyFromCpf inputs = (if useCpfForMonthly inputs
     then min (monthlyPayment inputs) (cpfOaBalance inputs / (loanTenureYears inputs * 12))
     else 0)"

definition totalCpfForMonthly :: "PropertyInputs \<Rightarrow> real" where
  "totalCpfForMonthly inputs = monthlyFromCpf inputs * holdingPeriodYears inputs * 12"

definition totalCpfUsed :: "PropertyInputs \<Rightarrow> real" where
  "totalCpfUsed inputs = cpfUsedForDownpayment inputs + totalCpfForMonthly inputs"

definition cpfAccruedInterest :: "PropertyInputs \<Rightarrow> real" where
  "cpfAccruedInterest inputs =
     calculateCpfAccruedInterest (cpfUsedForDownpayment inputs) (holdingPeriodYears inputs)
      + calculateCpfAccruedInterest (totalCpfForMonthly inputs / 2) (holdingPeriodYears inputs / 2)"

definition totalCpfRefund :: "PropertyInputs \<Rightarrow> real" where
  "totalCpfRefund inputs = totalCpfUsed inputs + cpfAccruedInterest inputs"

definition tdsr :: "PropertyInputs \<Rightarrow> real" where
  "tdsr inputs =
     calculateTDSR (monthlyPayment inputs) (existingMonthlyDebt inputs) (monthlyIncome inputs)"

definition tdsrOk :: "PropertyInputs \<Rightarrow> bool" where
  "tdsrOk inputs = (tdsr inputs \<le> 55)"

definition tdsrRemaining :: "PropertyInputs \<Rightarrow> real" where
  "tdsrRemaining inputs = 55 - tdsr inputs"

definition cashNeeded :: "PropertyInputs \<Rightarrow> real" where
  "cashNeeded inputs = cashForDownpayment inputs + totalUpfrontCosts inputs"

definition canAfford :: "PropertyInputs \<Rightarrow> bool" where
  "canAfford inputs = (cashAvailable inputs \<ge> cashNeeded inputs \<and> tdsrOk inputs
      \<and> (if useCpfForDownpayment inputs
         then cpfOaBalance inputs \<ge> cpfUsedForDownpayment inputs else True))"

definition shortfall :: "PropertyInputs \<Rightarrow> real" where
  "shortfall inputs =
     (if canAfford inputs then 0 else max 0 (cashNeeded inputs - cashAvailable inputs))"

definition maxAffordablePrice :: "PropertyInputs \<Rightarrow> jsnum" where
  "maxAffordablePrice inputs = calculateMaxAffordablePrice (cashAvailable inputs)
      (if useCpfForDownpayment inputs then cpfOaBalance inputs else 0)
      (monthlyIncome inputs) (existingMonthlyDebt inputs) (loanPercentage inputs)
      (loanInterestRate inputs) (loanTenureYears inputs)"

definition monthlyRentalIncome :: "PropertyInputs \<Rightarrow> real" where
  "monthlyRentalIncome inputs = (if isRentingOut inputs then expectedMonthlyRental inputs else 0)"

definition annualRentalIncome :: "PropertyInputs \<Rightarrow> real" where
  "annualRentalIncome inputs = monthlyRentalIncome inputs * 12"

definition monthlyRoomIncome :: "PropertyInputs \<Rightarrow> real" where
  "monthlyRoomIncome inputs =
     (if \<not> isRentingOut inputs \<and> rentOutRoom inputs then roomRentalIncome inputs else 0)"

definition annualRoomIncome :: "PropertyInputs \<Rightarrow> real" where
  "annualRoomIncome inputs = monthlyRoomIncome inputs * 12"

definition monthlySavedRent :: "PropertyInputs \<Rightarrow> real" where
  "monthlySavedRent inputs = (if \<not> isRentingOut inputs then currentMonthlyRent inputs else 0)"

definition annualSavedRent :: "PropertyInputs \<Rightarrow> real" where
  "annualSavedRent inputs = monthlySavedRent inputs * 12"

definition annualValue :: "PropertyInputs \<Rightarrow> real" where
  "annualValue inputs = expectedMonthlyRental inputs * 12"

definition annualPropertyTax :: "PropertyInputs \<Rightarrow> real" where
  "annualPropertyTax inputs =
     calculatePropertyTax (annualValue inputs) (\<not> isRentingOut inputs)"

definition annualMortgageInterest :: "PropertyInputs \<Rightarrow> real" where
  "annualMortgageInterest inputs = totalInterestPaid inputs / loanTenureYears inputs"

definition annualRentalTax :: "PropertyInputs \<Rightarrow> real" where
  "annualRentalTax inputs = (if isRentingOut inputs
     then calculateRentalIncomeTax (annualRentalIncome inputs) (annualMortgageInterest inputs)
            (marginalTaxRate inputs)
     else 0)"

definition annualRoomTax :: "PropertyInputs \<Rightarrow> real" where
  "annualRoomTax inputs = (if \<not> isRentingOut inputs \<and> rentOutRoom inputs
     then calculateRentalIncomeTax (annualRoomIncome inputs) 0 (marginalTaxRate inputs)
     else 0)"

definition totalRentalTax :: "PropertyInputs \<Rightarrow> real" where
  "totalRentalTax inputs =
     (annualRentalTax inputs + annualRoomTax inputs) * holdingPeriodYears inputs"

definition annualCondoFees :: "PropertyInputs \<Rightarrow> real" where
  "annualCondoFees inputs = monthlyCondoFees inputs * 12"

definition annualRepairs :: "PropertyInputs \<Rightarrow> real" where
  "annualRepairs inputs = price inputs * 0.01"

definition annualInsurance :: real where
  "annualInsurance = fireInsurance + homeInsurance"

definition annualMaintenance :: "PropertyInputs \<Rightarrow> real" where
  "annualMaintenance inputs = annualCondoFees inputs + annualRepairs inputs + annualInsurance"

definition vacancyLoss :: "PropertyInputs \<Rightarrow> real" where
  "vacancyLoss inputs = (if isRentingOut inputs
     then expectedMonthlyRental inputs * vacancyWeeksPerYear inputs / 4.33 else 0)"

definition effectiveAnnualRental :: "PropertyInputs \<Rightarrow> real" where
  "effectiveAnnualRental inputs = annualRentalIncome inputs - vacancyLoss inputs"

definition annualIncomeFromProperty :: "PropertyInputs \<Rightarrow> real" where
  "annualIncomeFromProperty inputs = (if isRentingOut inputs then effectiveAnnualRental inputs
     else annualSavedRent inputs + annualRoomIncome inputs)"

definition annualLoanRepayment :: "PropertyInputs \<Rightarrow> real" where
  "annualLoanRepayment inputs = monthlyPayment inputs * 12"

definition annualNetCashflow :: "PropertyInputs \<Rightarrow> real" where
  "annualNetCashflow inputs = annualIncomeFromProperty inputs
      - annualPropertyTax inputs
      - (annualRentalTax inputs + annualRoomTax inputs)
      - annualLoanRepayment inputs
      - annualMaintenance inputs"

definition futureValue :: "PropertyInputs \<Rightarrow> real" where
  "futureValue inputs =
     price inputs * Math_pow (1 + annualAppreciation inputs / 100) (holdingPeriodYears inputs)"

definition capitalGain :: "PropertyInputs \<Rightarrow> real" where
  "capitalGain inputs = futureValue inputs - price inputs"

definition monthlyRate :: "PropertyInputs \<Rightarrow> real" where
  "monthlyRate inputs = loanInterestRate inputs / 100 / 12"

definition paymentsRemaining :: "PropertyInputs \<Rightarrow> real" where
  "paymentsRemaining inputs = (loanTenureYears inputs - holdingPeriodYears inputs) * 12"

definition remainingLoan :: "PropertyInputs \<Rightarrow> real" where
  "remainingLoan inputs = (if paymentsRemaining inputs > 0 \<and> monthlyRate inputs > 0
     then monthlyPayment inputs
            * (1 - Math_pow (1 + monthlyRate inputs) (- paymentsRemaining inputs))
            / monthlyRate inputs
     else 0)"

definition agentCommission :: "PropertyInputs \<Rightarrow> real" where
  "agentCommission inputs = futureValue inputs * (agentFeePercent inputs / 100)"

definition sellingLegalFees :: real where
  "sellingLegalFees = 2500"

definition earlyRepaymentPenalty :: "PropertyInputs \<Rightarrow> real" where
  "earlyRepaymentPenalty inputs = (if holdingPeriodYears inputs < loanLockInYears inputs
     then remainingLoan inputs * 0.015 else 0)"

definition ssd :: "PropertyInputs \<Rightarrow> real" where
  "ssd inputs = calculateSSD (futureValue inputs) (holdingPeriodYears inputs)"

definition ssdApplies :: "PropertyInputs \<Rightarrow> bool" where
  "ssdApplies inputs = (holdingPeriodYears inputs < 3)"

definition totalRentalIncome :: "PropertyInputs \<Rightarrow> real" where
  "totalRentalIncome inputs = annualRentalIncome inputs * holdingPeriodYears inputs"

definition totalSavedRent :: "PropertyInputs \<Rightarrow> real" where
  "totalSavedRent inputs = annualSavedRent inputs * holdingPeriodYears inputs"

definition totalRoomIncome :: "PropertyInputs \<Rightarrow> real" where
  "totalRoomIncome inputs = annualRoomIncome inputs * holdingPeriodYears inputs"

definition totalIncomeFromProperty :: "PropertyInputs \<Rightarrow> real" where
  "totalIncomeFromProperty inputs = annualIncomeFromProperty inputs * holdingPeriodYears inputs"

definition holdingCosts :: "PropertyInputs \<Rightarrow> real" where
  "holdingCosts inputs =
     (annualPropertyTax inputs + annualMaintenance inputs) * holdingPeriodYears inputs"

definition totalLoanPayments :: "PropertyInputs \<Rightarrow> real" where
  "totalLoanPayments inputs =
     annualLoanRepayment inputs * min (holdingPeriodYears inputs) (loanTenureYears inputs)"

definition interestDuringHolding :: "PropertyInputs \<Rightarrow> real" where
  "interestDuringHolding inputs =
     totalLoanPayments inputs - (loanAmount inputs - remainingLoan inputs)"

definition discountFactor :: "PropertyInputs \<Rightarrow> real" where
  "discountFactor inputs = 1 / (1 + prevailingInterestRate inputs / 100)"

text \<open>
  The loop \<open>for (let year = 1; year <= holdingPeriodYears; year++)\<close> that accumulates
  \<open>pvCashflows\<close> and \<open>fvCashflows\<close>; the counter runs through natural numbers.
\<close>

function cashflows_loop :: "PropertyInputs \<Rightarrow> nat \<Rightarrow> real \<times> real \<Rightarrow> real \<times> real" where
  "cashflows_loop inputs year (pv, fv) =
    (if real year \<le> holdingPeriodYears inputs
     then cashflows_loop inputs (year + 1)
            (pv + annualNetCashflow inputs * Math_pow (discountFactor inputs) (real year),
             fv + annualNetCashflow inputs
                  * Math_pow (1 + prevailingInterestRate inputs / 100)
                      (holdingPeriodYears inputs - real year))
     else (pv, fv))"
  by pat_completeness auto
termination
proof (relation "measure (\<lambda>(inputs, year, _). nat (\<lfloor>holdingPeriodYears inputs\<rfloor> + 1 - int year))")
  show "wf (measure (\<lambda>(inputs, year, _). nat (\<lfloor>holdingPeriodYears inputs\<rfloor> + 1 - int year)))"
    by simp
next
  fix inputs :: PropertyInputs and year :: nat and pv fv :: real
  assume "real year \<le> holdingPeriodYears inputs"
  then have "int year \<le> \<lfloor>holdingPeriodYears inputs\<rfloor>"
    by (simp add: le_floor_iff)
  then show "((inputs, year + 1,
        pv + annualNetCashflow inputs * Math_pow (discountFactor inputs) (real year),
        fv + annualNetCashflow inputs
             * Math_pow (1 + prevailingInterestRate inputs / 100)
                 (holdingPeriodYears inputs - real year)),
       (inputs, year, pv, fv))
      \<in> measure (\<lambda>(inputs, year, _). nat (\<lfloor>holdingPeriodYears inputs\<rfloor> + 1 - int year))"
    by simp
qed

declare cashflows_loop.simps [simp del]

definition pvCashflows :: "PropertyInputs \<Rightarrow> real" where
  "pvCashflows inputs = fst (cashflows_loop inputs 1 (0, 0))"

definition fvCashflows :: "PropertyInputs \<Rightarrow> real" where
  "fvCashflows inputs = snd (cashflows_loop inputs 1 (0, 0))"

definition sellingCosts :: "PropertyInputs \<Rightarrow> real" where
  "sellingCosts inputs =
     ssd inputs + agentCommission inputs + sellingLegalFees + earlyRepaymentPenalty inputs"

definition salesIncome :: "PropertyInputs \<Rightarrow> real" where
  "salesIncome inputs = futureValue inputs - sellingCosts inputs - remainingLoan inputs"

definition cpfOpportunityCost :: "PropertyInputs \<Rightarrow> real" where
  "cpfOpportunityCost inputs = cpfAccruedInterest inputs"

definition totalInitialExpense :: "PropertyInputs \<Rightarrow> real" where
  "totalInitialExpense inputs = totalUpfrontCosts inputs + downPayment inputs"

definition pvNegativeCashflows :: "PropertyInputs \<Rightarrow> real" where
  "pvNegativeCashflows inputs =
     (if pvCashflows inputs < 0 then \<bar>pvCashflows inputs\<bar> else 0)"

definition totalInvestment :: "PropertyInputs \<Rightarrow> real" where
  "totalInvestment inputs = totalInitialExpense inputs + pvNegativeCashflows inputs"

definition fvPositiveCashflows :: "PropertyInputs \<Rightarrow> real" where
  "fvPositiveCashflows inputs = (if fvCashflows inputs > 0 then fvCashflows inputs else 0)"

definition totalReturn :: "PropertyInputs \<Rightarrow> real" where
  "totalReturn inputs = salesIncome inputs + fvPositiveCashflows inputs
      + (if isRentingOut inputs then 0 else totalSavedRent inputs)"

definition totalVacancyLoss :: "PropertyInputs \<Rightarrow> real" where
  "totalVacancyLoss inputs = vacancyLoss inputs * holdingPeriodYears inputs"

definition netProfit :: "PropertyInputs \<Rightarrow> real" where
  "netProfit inputs = totalReturn inputs - totalInvestment inputs - cpfOpportunityCost inputs"

definition roi :: "PropertyInputs \<Rightarrow> real" where
  "roi inputs =
     (if totalInvestment inputs > 0 then (netProfit inputs / totalInvestment inputs) * 100 else 0)"

definition breakEvenPrice :: "PropertyInputs \<Rightarrow> real" where
  "breakEvenPrice inputs = price inputs + totalUpfrontCosts inputs + holdingCosts inputs
      + interestDuringHolding inputs + sellingCosts inputs + totalRentalTax inputs
      - totalIncomeFromProperty inputs"


section \<open>A platform for the examples\<close>

text \<open>
  Stand-ins for the four functions of the platform, for the inputs of the examples: decimal
  notation for a non-negative number with at most one digit after the point, and the query
  syntax \<open>k=v&k=v\<close> for names and values that need no percent-encoding.
\<close>

definition digit_char :: "nat \<Rightarrow> char" where
  "digit_char n = ''0123456789'' ! n"

function show_nat :: "nat \<Rightarrow> string" where
  "show_nat n = (if n < 10 then [digit_char n] else show_nat (n div 10) @ [digit_char (n mod 10)])"
  by pat_completeness auto
termination
  by (relation "measure id") auto

declare show_nat.simps [simp del]

definition show_decimal :: "real \<Rightarrow> string" where
  "show_decimal x =
    (let t = nat \<lfloor>x * 10\<rfloor>
     in show_nat (t div 10) @ (if t mod 10 = 0 then [] else CHR ''.'' # show_nat (t mod 10)))"

definition digit_val :: "char \<Rightarrow> nat option" where
  "digit_val c =
    map_of [(CHR ''0'', 0), (CHR ''1'', 1), (CHR ''2'', 2), (CHR ''3'', 3), (CHR ''4'', 4),
            (CHR ''5'', 5), (CHR ''6'', 6), (CHR ''7'', 7), (CHR ''8'', 8), (CHR ''9'', 9)] c"

fun read_nat :: "nat \<Rightarrow> string \<Rightarrow> nat option" where
  "read_nat acc [] = Some acc"
| "read_nat acc (c # cs) =
    (case digit_val c of None \<Rightarrow> None | Some d \<Rightarrow> read_nat (10 * acc + d) cs)"

definition read_decimal :: "string \<Rightarrow> real option" where
  "read_decimal s =
    (let whole = takeWhile (\<lambda>c. c \<noteq> CHR ''.'') s;
         frac = drop 1 (dropWhile (\<lambda>c. c \<noteq> CHR ''.'') s)
     in if whole = [] then None
        else (case (read_nat 0 whole, read_nat 0 frac) of
                (Some a, Some b) \<Rightarrow> Some (real a + real b / 10 ^ length frac)
              | _ \<Rightarrow> None))"

fun to_query :: "URLSearchParams \<Rightarrow> string" where
  "to_query [] = []"
| "to_query [(k, v)] = k @ CHR ''='' # v"
| "to_query ((k, v) # ps) = k @ CHR ''='' # v @ CHR ''&'' # to_query ps"

fun split_pairs :: "string \<Rightarrow> string list" where
  "split_pairs [] = []"
| "split_pairs (c # cs) =
    (if c = CHR ''&'' then [] # split_pairs cs
     else (case split_pairs cs of [] \<Rightarrow> [[c]] | w # ws \<Rightarrow> (c # w) # ws))"

definition parse_query :: "string \<Rightarrow> URLSearchParams" where
  "parse_query s =
    map (\<lambda>w. (takeWhile (\<lambda>c. c \<noteq> CHR ''='') w, drop 1 (dropWhile (\<lambda>c. c \<noteq> CHR ''='') w)))
      (filter (\<lambda>w. w \<noteq> []) (split_pairs s))"

section \<open>Example inputs\<close>

text \<open>
  A cash purchase by a citizen, held for three years with no appreciation: no loan, no CPF,
  a prevailing rate of 0, the owner staying in and saving a rent of 1,700 a month.
\<close>

definition own_stay_inputs :: PropertyInputs where
  "own_stay_inputs = \<lparr>
     price = 1000000, residencyStatus = ''citizen'', propertyType = ''private'',
     propertyNumber = 1, expectedRentalYield = 3.2, holdingPeriodYears = 3,
     annualAppreciation = 0, loanPercentage = 0, loanInterestRate = 0, loanTenureYears = 30,
     monthlyIncome = 15000, monthlyCondoFees = 0, isRentingOut = False,
     cashAvailable = 1100000, cpfOaBalance = 0, useCpfForDownpayment = False,
     useCpfForMonthly = False, existingMonthlyDebt = 0, marginalTaxRate = 0,
     currentMonthlyRent = 1700, expectedMonthlyRental = 0, rentOutRoom = False,
     roomRentalIncome = 0, annualWorkIncome = 0, agentFeePercent = 0,
     prevailingInterestRate = 0, loanLockInYears = 0, includeRenovation = True,
     renovationCost = 50, vacancyWeeksPerYear = 0 \<rparr>"

text \<open>The same purchase, rented out at 2,000 a month with no vacancy.\<close>

definition rent_out_inputs :: PropertyInputs where
  "rent_out_inputs =
     own_stay_inputs\<lparr>isRentingOut := True, expectedMonthlyRental := 2000,
       renovationCost := 2210\<rparr>"

section \<open>Buyer's stamp duty\<close>

text \<open>
  C1, as stated, gives \<open>calculateBSD(1500000) = 49600\<close>. The band from 1,000,000 to
  1,500,000 is charged at 4 per cent (20,000), so the function returns 44,600.
\<close>

theorem calculateBSD_1500000_not_49600:
  "calculateBSD 1500000 \<noteq> 49600"
  by (simp add: calculateBSD_def Let_def)

text \<open>
  C1 (amended): \<open>calculateBSD(180000) = 1800\<close>, \<open>calculateBSD(1000000) = 24600\<close> and
  \<open>calculateBSD(1500000) = 44600\<close>; and a price that does not exceed the lower threshold
  of a band gets nothing from that band or any higher one: the duty is the sum of the
  bands below the threshold only, each full band at its rate and the last one in part.
\<close>

theorem calculateBSD_bands:
  "calculateBSD 180000 = 1800 \<and> calculateBSD 1000000 = 24600 \<and> calculateBSD 1500000 = 44600
   \<and> (p \<le> 0 \<longrightarrow> calculateBSD p = 0)
   \<and> (0 < p \<and> p \<le> 180000 \<longrightarrow> calculateBSD p = p * 0.01)
   \<and> (180000 < p \<and> p \<le> 360000 \<longrightarrow>
        calculateBSD p = 1800 + (p - 180000) * 0.02)
   \<and> (360000 < p \<and> p \<le> 1000000 \<longrightarrow>
        calculateBSD p = 1800 + 3600 + (p - 360000) * 0.03)
   \<and> (1000000 < p \<and> p \<le> 1500000 \<longrightarrow>
        calculateBSD p = 1800 + 3600 + 19200 + (p - 1000000) * 0.04)
   \<and> (1500000 < p \<and> p \<le> 3000000 \<longrightarrow>
        calculateBSD p = 1800 + 3600 + 19200 + 20000 + (p - 1500000) * 0.05)
   \<and> (3000000 < p \<longrightarrow>
        calculateBSD p = 1800 + 3600 + 19200 + 20000 + 75000 + (p - 3000000) * 0.06)"
  by (simp add: calculateBSD_def Let_def min_def)

theorem calculateBSD_bands_witness:
  "calculateBSD 180000 = 1800 \<and> calculateBSD 1000000 = 24600 \<and> calculateBSD 1500000 = 44600
   \<and> calculateBSD (-5) = 0
   \<and> calculateBSD 100000 = 1000
   \<and> calculateBSD 200000 = 2200
   \<and> calculateBSD 500000 = 9600
   \<and> calculateBSD 1200000 = 32600
   \<and> calculateBSD 2000000 = 69600
   \<and> calculateBSD 4000000 = 179600"
  using calculateBSD_bands [of "-5"] calculateBSD_bands [of 100000]
    calculateBSD_bands [of 200000] calculateBSD_bands [of 500000]
    calculateBSD_bands [of 1200000] calculateBSD_bands [of 2000000]
    calculateBSD_bands [of 4000000]
  by simp

section \<open>Seller's stamp duty\<close>

text \<open>
  C5: the comparisons of \<open>calculateSSD\<close> are strict, so for every price 3.0 years held
  gives 0, 2.999 years gives 4 per cent, 0.999 years gives 12 per cent, and exactly 1.0 and
  2.0 years fall into the lower bands of 8 and 4 per cent.
\<close>

theorem calculateSSD_boundaries:
  "calculateSSD p 3 = 0 \<and> calculateSSD p 2.999 = p * 0.04
   \<and> calculateSSD p 0.999 = p * 0.12
   \<and> calculateSSD p 1 = p * 0.08 \<and> calculateSSD p 2 = p * 0.04"
  by (simp add: calculateSSD_def)

section \<open>Additional buyer's stamp duty\<close>

text \<open>
  C4, as stated, has \<open>calculateABSD\<close> and \<open>getABSDRate\<close> fail on a residency status or a
  property count outside the enumeration. Neither function has a failing path: each is a
  chain of comparisons whose last \<open>else\<close> takes every other value. For the status
  \<open>tourist\<close> and the property count 7 they return the foreigner's levy and rate.
\<close>

theorem calculateABSD_unknown_status_returns:
  "calculateABSD 1000000 ''tourist'' 7 = 600000 \<and> getABSDRate ''tourist'' 7 = 60"
  by (simp add: calculateABSD_def getABSDRate_def)

text \<open>
  C4 (amended): the lookups never fail. A residency status other than \<open>citizen\<close> and
  \<open>pr\<close> gets the foreigner's rate of 60 per cent, whatever the property count; a property
  count other than 1 and 2 gets the rate of the third and subsequent property (30 per cent
  for a citizen, 35 per cent for a permanent resident).
\<close>

theorem ABSD_outside_enumeration:
  "(s \<noteq> ''citizen'' \<and> s \<noteq> ''pr'' \<longrightarrow>
      calculateABSD p s n = p * 0.60
      \<and> getABSDRate s n = 60)
   \<and> (n \<noteq> 1 \<and> n \<noteq> 2 \<longrightarrow>
      calculateABSD p ''citizen'' n = p * 0.30
      \<and> getABSDRate ''citizen'' n = 30
      \<and> calculateABSD p ''pr'' n = p * 0.35
      \<and> getABSDRate ''pr'' n = 35)"
  by (simp add: calculateABSD_def getABSDRate_def)

theorem ABSD_outside_enumeration_witness:
  "''tourist'' \<noteq> ''citizen'' \<and> ''tourist'' \<noteq> ''pr'' \<and> (7::real) \<noteq> 1 \<and> (7::real) \<noteq> 2
   \<and> calculateABSD 1000000 ''tourist'' 7 = 1000000 * 0.60
   \<and> getABSDRate ''tourist'' 7 = 60
   \<and> calculateABSD 1000000 ''citizen'' 7 = 1000000 * 0.30
   \<and> getABSDRate ''citizen'' 7 = 30
   \<and> calculateABSD 1000000 ''pr'' 7 = 1000000 * 0.35
   \<and> getABSDRate ''pr'' 7 = 35"
  using ABSD_outside_enumeration [of "''tourist''" 1000000 7]
  by simp

section \<open>Powers\<close>

lemma Math_pow_powr: "0 < x \<Longrightarrow> Math_pow x y = x powr y"
proof -
  assume x: "0 < x"
  show ?thesis
  proof (cases "0 \<le> y \<and> y = of_int \<lfloor>y\<rfloor>")
    case True
    then have "y = real (nat \<lfloor>y\<rfloor>)" by simp
    then have "x powr y = x ^ nat \<lfloor>y\<rfloor>"
      using x powr_realpow [of x "nat \<lfloor>y\<rfloor>"] by simp
    with True show ?thesis by (simp add: Math_pow_def)
  next
    case False
    then show ?thesis by (auto simp: Math_pow_def)
  qed
qed

section \<open>Binary floating point\<close>

text \<open>
  \<open>binary64\<close> at a real whose binary exponent is known: with \<open>2^k \<le> |x| < 2^(k + 1)\<close>
  the unit in the last place is \<open>2^(k - 52)\<close>, and with \<open>2^(-k) \<le> |x| < 2^(1 - k)\<close> it is
  \<open>2^(-k - 52)\<close>.
\<close>

lemma binary64_large:
  assumes "2 ^ k \<le> \<bar>x\<bar>" "\<bar>x\<bar> < 2 * 2 ^ k"
  shows "binary64 x = of_int (round_half_even (x * 2 ^ 52 / 2 ^ k)) * 2 ^ k / 2 ^ 52"
proof -
  have "0 < (2::real) ^ k" by simp
  then have "0 < \<bar>x\<bar>" using assms(1) by linarith
  then have x: "x \<noteq> 0" "0 < \<bar>x\<bar>" by auto
  have "(2::real) powr real k \<le> \<bar>x\<bar> \<and> \<bar>x\<bar> < 2 powr (real k + 1)"
    using assms by (simp add: powr_add powr_realpow)
  then have "\<lfloor>log 2 \<bar>x\<bar>\<rfloor> = int k"
    using x(2) floor_log_eq_powr_iff [of "\<bar>x\<bar>" 2 "int k"] by simp
  then have e: "of_int \<lfloor>log 2 \<bar>x\<bar>\<rfloor> = real k" by simp
  have u: "(2::real) powr (real k - 52) = 2 ^ k / 2 ^ 52"
    by (simp add: powr_diff powr_realpow)
  have "binary64 x = of_int (round_half_even (x / (2 ^ k / 2 ^ 52))) * (2 ^ k / 2 ^ 52)"
    using x(1) by (simp only: binary64_def e u Let_def if_False)
  then show ?thesis by simp
qed

lemma binary64_small:
  assumes "1 / 2 ^ k \<le> \<bar>x\<bar>" "\<bar>x\<bar> < 2 / 2 ^ k"
  shows "binary64 x = of_int (round_half_even (x * (2 ^ 52 * 2 ^ k))) / (2 ^ 52 * 2 ^ k)"
proof -
  have "0 < 1 / (2::real) ^ k" by simp
  then have "0 < \<bar>x\<bar>" using assms(1) by linarith
  then have x: "x \<noteq> 0" "0 < \<bar>x\<bar>" by auto
  have a: "(2::real) powr (- real k) = 1 / 2 ^ k"
    by (simp add: powr_minus_divide powr_realpow)
  have "(2::real) powr (- real k + 1) = 2 powr (- real k) * 2 powr 1" by (rule powr_add)
  then have b: "(2::real) powr (- real k + 1) = 2 / 2 ^ k" by (simp add: a)
  have "(2::real) powr of_int (- int k) \<le> \<bar>x\<bar>
      \<and> \<bar>x\<bar> < 2 powr (of_int (- int k) + 1)"
    using assms a b by simp
  then have "\<lfloor>log 2 \<bar>x\<bar>\<rfloor> = - int k"
    using x(2) floor_log_eq_powr_iff [of "\<bar>x\<bar>" 2 "- int k"] by simp
  then have e: "of_int \<lfloor>log 2 \<bar>x\<bar>\<rfloor> = - real k" by simp
  have "(2::real) powr (- real k - 52) = 2 powr (- real k) / 2 powr 52" by (rule powr_diff)
  then have u: "(2::real) powr (- real k - 52) = 1 / (2 ^ 52 * 2 ^ k)" by (simp add: a)
  have "binary64 x
      = of_int (round_half_even (x / (1 / (2 ^ 52 * 2 ^ k)))) * (1 / (2 ^ 52 * 2 ^ k))"
    using x(1) by (simp only: binary64_def e u Let_def if_False)
  then show ?thesis by simp
qed

text \<open>
  The relative error of a rounding is at most \<open>2^(-53)\<close>.
\<close>

lemma round_half_even_error: "\<bar>of_int (round_half_even y) - y\<bar> \<le> 1 / 2"
proof -
  have "of_int \<lfloor>y\<rfloor> \<le> y" "y < of_int \<lfloor>y\<rfloor> + 1" by linarith+
  then show ?thesis by (auto simp: round_half_even_def Let_def)
qed

lemma binary64_error: "\<bar>binary64 x - x\<bar> \<le> \<bar>x\<bar> / 2 ^ 53"
proof (cases "x = 0")
  case True
  then show ?thesis by (simp add: binary64_def)
next
  case False
  define u :: real where "u = 2 powr (of_int \<lfloor>log 2 \<bar>x\<bar>\<rfloor> - 52)"
  have u0: "0 < u" by (simp add: u_def)
  have "2 powr of_int \<lfloor>log 2 \<bar>x\<bar>\<rfloor> \<le> \<bar>x\<bar>"
    using False floor_log_eq_powr_iff [of "\<bar>x\<bar>" 2 "\<lfloor>log 2 \<bar>x\<bar>\<rfloor>"] by simp
  moreover have "u = 2 powr of_int \<lfloor>log 2 \<bar>x\<bar>\<rfloor> / 2 ^ 52"
    by (simp add: u_def powr_diff)
  ultimately have ux: "u \<le> \<bar>x\<bar> / 2 ^ 52" by (simp add: divide_right_mono)
  have b: "binary64 x = of_int (round_half_even (x / u)) * u"
    using False by (simp add: binary64_def Let_def u_def)
  have "binary64 x - x = (of_int (round_half_even (x / u)) - x / u) * u"
    using u0 by (simp add: b algebra_simps)
  then have "\<bar>binary64 x - x\<bar> = \<bar>of_int (round_half_even (x / u)) - x / u\<bar> * u"
    using u0 by (simp add: abs_mult)
  also have "\<dots> \<le> 1 / 2 * u"
    using round_half_even_error [of "x / u"] u0 by (intro mult_right_mono) simp_all
  also have "\<dots> \<le> 1 / 2 * (\<bar>x\<bar> / 2 ^ 52)" using ux by simp
  finally show ?thesis by simp
qed

lemma binary64_bounds:
  assumes "0 \<le> x"
  shows "(1 - 1 / 2 ^ 53) * x \<le> binary64 x" and "binary64 x \<le> (1 + 1 / 2 ^ 53) * x"
proof -
  have "\<bar>binary64 x - x\<bar> \<le> x / 2 ^ 53" using binary64_error [of x] assms by simp
  then have e: "binary64 x - x \<le> x / 2 ^ 53" "- (x / 2 ^ 53) \<le> binary64 x - x"
    by linarith+
  show "(1 - 1 / 2 ^ 53) * x \<le> binary64 x" using e(2) by (simp add: left_diff_distrib)
  show "binary64 x \<le> (1 + 1 / 2 ^ 53) * x" using e(1) by (simp add: distrib_right)
qed

section \<open>Monthly payment\<close>

text \<open>
  The annuity factor: for a monthly rate \<open>r > 0\<close> and \<open>n > 0\<close> payments,
  \<open>(1 + r)\<^sup>n > 1\<close> and \<open>(1 + r)\<^sup>n - 1 \<le> n r (1 + r)\<^sup>n\<close>, from \<open>ln (1 + r) \<le> r\<close> and
  \<open>1 - t \<le> exp (- t)\<close>.
\<close>

lemma annuity_factor:
  fixes r n :: real
  assumes r: "0 < r" and n: "0 < n"
  shows "1 < (1 + r) powr n" and "(1 + r) powr n - 1 \<le> n * r * (1 + r) powr n"
proof -
  let ?t = "n * ln (1 + r)"
  have lnpos: "0 < ln (1 + r)" using r ln_gt_zero [of "1 + r"] by simp
  have t: "0 < ?t" using n lnpos by simp
  have q: "(1 + r) powr n = exp ?t" using r by (simp add: powr_def)
  show "1 < (1 + r) powr n" using t q by simp
  have "ln (1 + r) \<le> r" using r ln_add_one_self_le_self [of r] by simp
  then have tr: "?t \<le> n * r" using n by simp
  have "1 + (- ?t) \<le> exp (- ?t)" by (rule exp_ge_add_one_self)
  then have "(1 - ?t) * exp ?t \<le> exp (- ?t) * exp ?t"
    by (intro mult_right_mono) simp_all
  then have "(1 - ?t) * exp ?t \<le> 1" by (simp add: exp_minus_inverse flip: exp_add)
  then have "exp ?t - 1 \<le> ?t * exp ?t" by (simp add: algebra_simps)
  also have "\<dots> \<le> (n * r) * exp ?t" using tr by (intro mult_right_mono) simp_all
  finally show "(1 + r) powr n - 1 \<le> n * r * (1 + r) powr n" using q by simp
qed

text \<open>
  A sharper bound, \<open>(1 + n r / 2) ((1 + r)\<^sup>n - 1) \<le> n r (1 + r)\<^sup>n\<close>, from
  \<open>exp t - 1 \<le> (t / 2) (exp t + 1)\<close> for \<open>t \<ge> 0\<close>: the difference of the two sides is 0 at 0
  and its derivative is not negative.
\<close>

lemma exp_minus_one_le:
  fixes t :: real
  assumes "0 \<le> t"
  shows "exp t - 1 \<le> t / 2 * (exp t + 1)"
proof -
  define g where "g = (\<lambda>t::real. t / 2 * (exp t + 1) - (exp t - 1))"
  have d: "\<exists>y. (g has_real_derivative y) (at x) \<and> 0 \<le> y" if "0 \<le> x" for x
  proof -
    have "(g has_real_derivative (1 / 2 * (exp x + 1) + x / 2 * exp x - exp x)) (at x)"
      unfolding g_def by (auto intro!: derivative_eq_intros)
    moreover have "0 \<le> 1 / 2 * (exp x + 1) + x / 2 * exp x - exp x"
    proof -
      have "1 + (- x) \<le> exp (- x)" by (rule exp_ge_add_one_self)
      then have "(1 - x) * exp x \<le> exp (- x) * exp x"
        by (intro mult_right_mono) simp_all
      then have "(1 - x) * exp x \<le> 1" by (simp add: exp_minus_inverse flip: exp_add)
      then have "exp x \<le> 1 + x * exp x" by (simp add: algebra_simps)
      then show ?thesis by (simp add: field_simps)
    qed
    ultimately show ?thesis by blast
  qed
  have "g 0 \<le> g t"
    using assms d by (intro DERIV_nonneg_imp_nondecreasing [of 0 t g]) auto
  then show ?thesis by (simp add: g_def)
qed

lemma annuity_margin:
  fixes r n :: real
  assumes r: "0 < r" and n: "0 < n"
  shows "(1 + n * r / 2) * ((1 + r) powr n - 1) \<le> n * r * (1 + r) powr n"
proof -
  let ?t = "n * ln (1 + r)"
  have lnpos: "0 < ln (1 + r)" using r ln_gt_zero [of "1 + r"] by simp
  have t: "0 < ?t" using n lnpos by simp
  have q: "(1 + r) powr n = exp ?t" using r by (simp add: powr_def)
  have "ln (1 + r) \<le> r" using r ln_add_one_self_le_self [of r] by simp
  then have tr: "?t \<le> n * r" using n by simp
  have "exp ?t - 1 \<le> ?t / 2 * (exp ?t + 1)" using t by (intro exp_minus_one_le) simp
  also have "\<dots> \<le> n * r / 2 * (exp ?t + 1)"
    using tr by (intro mult_right_mono) simp_all
  finally have "exp ?t - 1 \<le> n * r / 2 * (exp ?t + 1)" .
  then have "(1 + n * r / 2) * (exp ?t - 1) \<le> n * r * exp ?t"
    by (simp add: algebra_simps)
  then show ?thesis using q by simp
qed

text \<open>
  In exact arithmetic, for a positive principal, rate and tenure the payment is positive
  and the total interest is at least half of the simple interest on the principal,
  \<open>principal \<times> rate / 100 \<times> years / 2\<close>.
\<close>

lemma calculateMonthlyPayment_positive_rate:
  assumes p: "0 < p" and rate: "0 < rate" and years: "0 < years"
  shows "0 < calculateMonthlyPayment p rate years"
    and "p * rate * years / 200 \<le> calculateMonthlyPayment p rate years * years * 12 - p"
proof -
  define r where "r = rate / 100 / 12"
  define n where "n = years * 12"
  define q where "q = (1 + r) powr n"
  have r: "0 < r" and n: "0 < n" using rate years by (simp_all add: r_def n_def)
  have q1: "1 < q" using annuity_factor(1) [OF r n] by (simp add: q_def)
  have qb: "(1 + n * r / 2) * (q - 1) \<le> n * r * q"
    using annuity_margin [OF r n] by (simp add: q_def)
  have pay: "calculateMonthlyPayment p rate years = p * (r * q) / (q - 1)"
    using p rate r by (simp add: calculateMonthlyPayment_def Let_def r_def n_def q_def Math_pow_powr)
  show "0 < calculateMonthlyPayment p rate years" using p r q1 by (simp add: pay)
  have "1 + n * r / 2 \<le> n * r * q / (q - 1)" using qb q1 by (simp add: field_simps)
  then have "p * (1 + n * r / 2) \<le> p * (n * r * q / (q - 1))"
    using p by (intro mult_left_mono) simp_all
  then have a: "p * (n * r / 2) \<le> p * (r * q) / (q - 1) * n - p" by (simp add: algebra_simps)
  have b: "p * (n * r / 2) = p * rate * years / 200" by (simp add: n_def r_def)
  have c: "calculateMonthlyPayment p rate years * years * 12 - p
      = p * (r * q) / (q - 1) * n - p"
    by (simp add: pay n_def)
  from a show "p * rate * years / 200 \<le> calculateMonthlyPayment p rate years * years * 12 - p"
    by (simp only: b c)
qed

text \<open>
  The program's arithmetic at a rate of 0, for a principal of 100,000 over 7 years: the
  quotient \<open>100000 / 84\<close> is rounded down, the two products are rounded, and
  \<open>payment * years * 12 - principal\<close> is \<open>-2^(-36)\<close> (about \<open>-1.46e-11\<close>), where exact
  arithmetic gives 0.
\<close>

lemma zero_rate_interest_100000_7:
  "zero_rate_interest_binary64 100000 7 = - (1 / 2 ^ 36)
   \<and> calculateMonthlyPayment 100000 0 7 * 7 * 12 - 100000 = 0"
proof -
  have 1: "binary64 (7 * 12) = 84"
    by (subst binary64_large [where k = 6]) (simp_all add: round_half_even_def)
  have 2: "binary64 (100000 / 84) = 2617884828038095 / 2199023255552"
    by (subst binary64_large [where k = 10]) (simp_all add: round_half_even_def)
  have 3: "binary64 (2617884828038095 / 2199023255552 * 7) = 2290649224533333 / 274877906944"
    by (subst binary64_large [where k = 13]) (simp_all add: round_half_even_def)
  have 4: "binary64 (2290649224533333 / 274877906944 * 12) = 6871947673599999 / 68719476736"
    by (subst binary64_large [where k = 16]) (simp_all add: round_half_even_def)
  have 5: "binary64 (6871947673599999 / 68719476736 - 100000) = - (1 / 2 ^ 36)"
    by (subst binary64_small [where k = 36]) (simp_all add: round_half_even_def)
  have 6: "calculateMonthlyPayment 100000 0 7 * 7 * 12 - 100000 = 0"
    by (simp add: calculateMonthlyPayment_def)
  show ?thesis by (simp only: zero_rate_interest_binary64_def 1 2 3 4 5 6 simp_thms)
qed

text \<open>
  It is never far from 0: each of the five roundings has a relative error of at most
  \<open>2^(-53)\<close>, and the total interest at a rate of 0 is within \<open>principal * 2^(-50)\<close> of 0.
\<close>

lemma zero_rate_interest_binary64_bound:
  assumes p: "0 \<le> p" and y: "0 < years"
  shows "\<bar>zero_rate_interest_binary64 p years\<bar> \<le> p / 2 ^ 50"
proof -
  define l :: real where "l = 1 - 1 / 2 ^ 53"
  define u :: real where "u = 1 + 1 / 2 ^ 53"
  have l: "0 < l" and u: "0 < u" by (simp_all add: l_def u_def)
  note bl = binary64_bounds(1) [folded l_def]
  note bu = binary64_bounds(2) [folded u_def]
  define n where "n = binary64 (years * 12)"
  define a where "a = binary64 (p / n)"
  define b where "b = binary64 (a * years)"
  define c where "c = binary64 (b * 12)"
  have n1: "l * (years * 12) \<le> n" and n2: "n \<le> u * (years * 12)"
    using bl [of "years * 12"] bu [of "years * 12"] y by (simp_all add: n_def)
  have "0 < l * (years * 12)" using l y by simp
  then have n0: "0 < n" using n1 by linarith
  have q0: "0 \<le> p / n" using p n0 by simp
  have q1: "p / (u * (years * 12)) \<le> p / n"
    using n2 n0 p by (intro divide_left_mono) (simp_all add: u y)
  have q2: "p / n \<le> p / (l * (years * 12))"
    using n1 n0 p l y by (intro divide_left_mono) simp_all
  have a1: "l * (p / (u * (years * 12))) \<le> a"
  proof -
    have "l * (p / (u * (years * 12))) \<le> l * (p / n)"
      using q1 l by (intro mult_left_mono) simp_all
    also have "\<dots> \<le> a" using bl [OF q0] by (simp add: a_def)
    finally show ?thesis .
  qed
  have a2: "a \<le> u * (p / (l * (years * 12)))"
  proof -
    have "a \<le> u * (p / n)" using bu [OF q0] by (simp add: a_def)
    also have "\<dots> \<le> u * (p / (l * (years * 12)))"
      using q2 u by (intro mult_left_mono) simp_all
    finally show ?thesis .
  qed
  have "0 \<le> l * (p / (u * (years * 12)))" using l u p y by simp
  then have a0: "0 \<le> a" using a1 by linarith
  have ay0: "0 \<le> a * years" using a0 y by simp
  have b1: "l * (l * p / (u * 12)) \<le> b"
  proof -
    have "l * (p / (u * (years * 12))) * years \<le> a * years"
      using a1 y by (intro mult_right_mono) simp_all
    moreover have "l * (p / (u * (years * 12))) * years = l * p / (u * 12)"
      using y by (simp add: field_simps)
    ultimately have "l * p / (u * 12) \<le> a * years" by simp
    then have "l * (l * p / (u * 12)) \<le> l * (a * years)"
      using l by (intro mult_left_mono) simp_all
    also have "\<dots> \<le> b" using bl [OF ay0] by (simp add: b_def)
    finally show ?thesis .
  qed
  have b2: "b \<le> u * (u * p / (l * 12))"
  proof -
    have "a * years \<le> u * (p / (l * (years * 12))) * years"
      using a2 y by (intro mult_right_mono) simp_all
    moreover have "u * (p / (l * (years * 12))) * years = u * p / (l * 12)"
      using y by (simp add: field_simps)
    ultimately have "a * years \<le> u * p / (l * 12)" by simp
    then have "u * (a * years) \<le> u * (u * p / (l * 12))"
      using u by (intro mult_left_mono) simp_all
    moreover have "b \<le> u * (a * years)" using bu [OF ay0] by (simp add: b_def)
    ultimately show ?thesis by linarith
  qed
  have "0 \<le> l * (l * p / (u * 12))" using l u p by simp
  then have b0: "0 \<le> b * 12" using b1 by linarith
  have c1: "l * l * l / u * p \<le> c"
  proof -
    have "l * ((l * (l * p / (u * 12))) * 12) \<le> l * (b * 12)"
      using b1 l by (intro mult_left_mono mult_right_mono) simp_all
    also have "\<dots> \<le> c" using bl [OF b0] by (simp add: c_def)
    finally show ?thesis using u by (simp add: field_simps)
  qed
  have c2: "c \<le> u * u * u / l * p"
  proof -
    have "c \<le> u * (b * 12)" using bu [OF b0] by (simp add: c_def)
    also have "\<dots> \<le> u * ((u * (u * p / (l * 12))) * 12)"
      using b2 u by (intro mult_left_mono mult_right_mono) simp_all
    finally show ?thesis using l by (simp add: field_simps)
  qed
  have k1: "- (5 / 2 ^ 53) \<le> l * l * l / u - 1" by (simp add: l_def u_def)
  have k2: "u * u * u / l - 1 \<le> 5 / 2 ^ 53" by (simp add: l_def u_def)
  define e where "e = 5 * p / 2 ^ 53"
  define A where "A = (l * l * l / u - 1) * p"
  define B where "B = (u * u * u / l - 1) * p"
  have "- (5 / 2 ^ 53) * p \<le> (l * l * l / u - 1) * p"
    using k1 p by (intro mult_right_mono)
  then have f1: "- e \<le> A" by (simp add: e_def A_def)
  have f2: "A \<le> c - p" using c1 by (simp add: A_def algebra_simps)
  have f3: "c - p \<le> B" using c2 by (simp add: B_def algebra_simps)
  have "(u * u * u / l - 1) * p \<le> 5 / 2 ^ 53 * p"
    using k2 p by (intro mult_right_mono)
  then have f4: "B \<le> e" by (simp add: e_def B_def)
  have "\<bar>c - p\<bar> \<le> e" using f1 f2 f3 f4 by linarith
  then have d: "\<bar>c - p\<bar> \<le> 5 * p / 2 ^ 53" by (simp add: e_def)
  have "\<bar>binary64 (c - p)\<bar> \<le> \<bar>c - p\<bar> + \<bar>c - p\<bar> / 2 ^ 53"
    using binary64_error [of "c - p"] by linarith
  also have "\<dots> \<le> 5 * p / 2 ^ 53 + 5 * p / 2 ^ 53 / 2 ^ 53"
    using d by (intro add_mono divide_right_mono) simp_all
  also have "\<dots> \<le> p / 2 ^ 50" using p by simp
  finally show ?thesis
    by (simp add: zero_rate_interest_binary64_def n_def a_def b_def c_def)
qed

text \<open>
  The program's arithmetic at an annual rate of \<open>1e-13\<close>: the monthly rate
  \<open>annualRate / 100 / 12\<close> is about \<open>8.3e-17\<close>, less than half a unit in the last place
  of 1, so \<open>1 + monthlyRate\<close> is 1. The power of 1 is 1, the divisor
  \<open>Math.pow(1 + monthlyRate, numPayments) - 1\<close> is 0, and the payment is \<open>Infinity\<close>.
  For rates a little larger the sum is the next number after 1, and the divisor is wrong
  by a factor.
\<close>

lemma tiny_rate_binary64:
  "binary64 (1 + binary64 (binary64 (binary64 (1 / 10 ^ 13) / 100) / 12)) = 1"
proof -
  have 1: "binary64 (1 / 10 ^ 13) = 3961408125713217 / 39614081257132168796771975168"
    by (subst binary64_small [where k = 44]) (simp_all add: round_half_even_def)
  have 2: "binary64 (3961408125713217 / 39614081257132168796771975168 / 100)
      = 2535301200456459 / 2535301200456458802993406410752"
    by (subst binary64_small [where k = 50]) (simp_all add: round_half_even_def)
  have 3: "binary64 (2535301200456459 / 2535301200456458802993406410752 / 12)
      = 845100400152153 / 10141204801825835211973625643008"
    by (subst binary64_small [where k = 54]) (simp_all add: round_half_even_def)
  have 4: "binary64 (1 + 845100400152153 / 10141204801825835211973625643008) = 1"
    by (subst binary64_large [where k = 0]) (simp_all add: round_half_even_def)
  show ?thesis by (simp only: 1 2 3 4)
qed

text \<open>
  C2, as stated, is about every tenure. The tenure is a number the user types, and the
  function does not check it: for a principal of 1,200 at a rate of 0 over -1 years the
  payment is \<open>1200 / (-12) = -100\<close>. (With a tenure of 0 both branches divide by zero.)
\<close>

theorem calculateMonthlyPayment_negative_tenure:
  "calculateMonthlyPayment 1200 0 (- 1) = - 100"
  by (simp add: calculateMonthlyPayment_def)

text \<open>
  C2 (amended): for a principal that is 0 or between 1 and \<open>10^12\<close>, a tenure of 1 to 100
  years and an annual rate that is 0 or between 0.01 and 100 per cent, the monthly payment
  is \<open>\<ge> 0\<close>. For such a rate other than 0 the total interest, payment \<open>\<times>\<close> years \<open>\<times>\<close> 12
  \<open>-\<close> principal, is \<open>\<ge> 0\<close>, and at least principal \<open>\<times>\<close> rate \<open>\<times>\<close> years \<open>/\<close> 200. At a
  rate of 0 the payment is principal \<open>/\<close> (years \<open>\<times>\<close> 12), and the total interest that the
  program computes from it, each operation rounded, is within principal \<open>\<times> 2^(-50)\<close> of 0
  (on either side of it: see \<open>zero_rate_interest_100000_7\<close>). And
  \<open>calculateMonthlyPayment(500000, 0, 25) = 500000 / 300\<close>.

  Inside these ranges the program takes no difference of nearly equal quantities and
  nothing overflows: its payment is the exact one up to rounding errors that are small
  against the half of the simple interest. Outside them this fails: see
  \<open>tiny_rate_binary64\<close> for small positive rates; a long tenure at a high rate overflows
  the power, and a tenure of far less than a year cancels in the divisor.
\<close>

theorem calculateMonthlyPayment_interest_nonneg:
  assumes p: "p = 0 \<or> 1 \<le> p \<and> p \<le> 10 ^ 12"
    and rate: "rate = 0 \<or> 1 / 100 \<le> rate \<and> rate \<le> 100"
    and years: "1 \<le> years" "years \<le> 100"
  shows "0 \<le> calculateMonthlyPayment p rate years
     \<and> (rate = 0 \<longrightarrow> calculateMonthlyPayment p rate years = p / (years * 12)
            \<and> \<bar>zero_rate_interest_binary64 p years\<bar> \<le> p / 2 ^ 50)
     \<and> (rate \<noteq> 0 \<longrightarrow> 0 \<le> calculateMonthlyPayment p rate years * years * 12 - p
            \<and> p * rate * years / 200 \<le> calculateMonthlyPayment p rate years * years * 12 - p)
     \<and> calculateMonthlyPayment 500000 0 25 = 500000 / 300"
proof (cases "p = 0 \<or> rate = 0")
  case True
  have "0 \<le> p" "0 < years" using p years by auto
  then have "\<bar>zero_rate_interest_binary64 p years\<bar> \<le> p / 2 ^ 50"
    by (rule zero_rate_interest_binary64_bound)
  then show ?thesis using True p years by (auto simp: calculateMonthlyPayment_def)
next
  case False
  then have pos: "0 < p" "0 < rate" "0 < years" using p rate years by auto
  note a = calculateMonthlyPayment_positive_rate [OF pos]
  have "0 \<le> p * rate * years / 200" using pos by simp
  then have "0 \<le> calculateMonthlyPayment p rate years * years * 12 - p" using a(2) by simp
  moreover have "calculateMonthlyPayment 500000 0 25 = 500000 / 300"
    by (simp add: calculateMonthlyPayment_def)
  ultimately show ?thesis using a False by simp
qed

theorem calculateMonthlyPayment_interest_nonneg_witness:
  "((1125000::real) = 0 \<or> 1 \<le> (1125000::real) \<and> (1125000::real) \<le> 10 ^ 12)
   \<and> ((2.6::real) = 0 \<or> 1 / 100 \<le> (2.6::real) \<and> (2.6::real) \<le> 100)
   \<and> (1::real) \<le> 30 \<and> (30::real) \<le> 100 \<and> (2.6::real) \<noteq> 0
   \<and> 0 \<le> calculateMonthlyPayment 1125000 2.6 30
   \<and> 0 \<le> calculateMonthlyPayment 1125000 2.6 30 * 30 * 12 - 1125000
   \<and> 1125000 * 2.6 * 30 / 200 \<le> calculateMonthlyPayment 1125000 2.6 30 * 30 * 12 - 1125000
   \<and> ((500000::real) = 0 \<or> 1 \<le> (500000::real) \<and> (500000::real) \<le> 10 ^ 12)
   \<and> (1::real) \<le> 25 \<and> (25::real) \<le> 100
   \<and> calculateMonthlyPayment 500000 0 25 = 500000 / (25 * 12)
   \<and> \<bar>zero_rate_interest_binary64 500000 25\<bar> \<le> 500000 / 2 ^ 50
   \<and> calculateMonthlyPayment 500000 0 25 = 500000 / 300"
proof -
  have h: "(1125000::real) = 0 \<or> 1 \<le> (1125000::real) \<and> (1125000::real) \<le> 10 ^ 12"
    "(2.6::real) = 0 \<or> 1 / 100 \<le> (2.6::real) \<and> (2.6::real) \<le> 100"
    "(1::real) \<le> 30" "(30::real) \<le> 100"
    by simp_all
  have g: "(500000::real) = 0 \<or> 1 \<le> (500000::real) \<and> (500000::real) \<le> 10 ^ 12"
    "(0::real) = 0 \<or> 1 / 100 \<le> (0::real) \<and> (0::real) \<le> 100"
    "(1::real) \<le> 25" "(25::real) \<le> 100"
    by simp_all
  have n: "(2.6::real) \<noteq> 0" by simp
  from h g n calculateMonthlyPayment_interest_nonneg [OF h]
    calculateMonthlyPayment_interest_nonneg [OF g]
  show ?thesis by blast
qed

section \<open>Maximum affordable price\<close>

lemma maxLoan_nonneg:
  assumes "0 < maxMonthlyPayment mi ed" "0 \<le> rate" "0 \<le> tenure"
  shows "0 \<le> maxLoan mi ed rate tenure"
proof (cases "rate > 0")
  case True
  then have b: "1 \<le> 1 + rate / 100 / 12" by simp
  have "(1 + rate / 100 / 12) powr (- (tenure * 12)) \<le> 1"
    using b assms(3) powr_mono [of "- (tenure * 12)" 0 "1 + rate / 100 / 12"] by simp
  then show ?thesis using True assms b
    by (simp add: maxLoan_def Let_def Math_pow_powr)
next
  case False
  then show ?thesis using assms by (simp add: maxLoan_def Let_def)
qed

lemma maxLoan_pos:
  assumes "0 < maxMonthlyPayment mi ed" "0 \<le> rate" "0 < tenure"
  shows "0 < maxLoan mi ed rate tenure"
proof (cases "rate > 0")
  case True
  then have b: "1 < 1 + rate / 100 / 12" by simp
  have "(1 + rate / 100 / 12) powr (- (tenure * 12)) < 1"
    using b assms(3) by (simp add: powr_less_one)
  then show ?thesis using True assms b
    by (simp add: maxLoan_def Let_def Math_pow_powr)
next
  case False
  then show ?thesis using assms by (simp add: maxLoan_def Let_def)
qed

lemma floor_multiple:
  fixes x :: real
  assumes "0 \<le> x"
  shows "\<exists>k::nat. of_int \<lfloor>x / 50000\<rfloor> * 50000 = 50000 * real k"
    and "of_int \<lfloor>x / 50000\<rfloor> * 50000 \<le> x"
proof -
  have "0 \<le> \<lfloor>x / 50000\<rfloor>" using assms by simp
  then have "real_of_int \<lfloor>x / 50000\<rfloor> = real (nat \<lfloor>x / 50000\<rfloor>)" by simp
  then show "\<exists>k::nat. of_int \<lfloor>x / 50000\<rfloor> * 50000 = 50000 * real k"
    by (metis mult.commute)
  have "of_int \<lfloor>x / 50000\<rfloor> \<le> x / 50000" by (rule of_int_floor_le)
  then show "of_int \<lfloor>x / 50000\<rfloor> * 50000 \<le> x" by (simp add: field_simps)
qed

text \<open>
  \<open>maxLoan\<close> is the loan that the monthly amount services: in exact arithmetic the
  payment that \<open>calculateMonthlyPayment\<close> asks for it, at the same rate and tenure, is
  55 per cent of the income minus the debt.
\<close>

lemma maxLoan_payment:
  assumes m: "0 < maxMonthlyPayment mi ed" and rate: "0 \<le> rate" and tenure: "0 < tenure"
  shows "calculateMonthlyPayment (maxLoan mi ed rate tenure) rate tenure = maxMonthlyPayment mi ed"
proof (cases "rate = 0")
  case True
  then show ?thesis using m tenure
    by (simp add: calculateMonthlyPayment_def maxLoan_def Let_def)
next
  case False
  define r where "r = rate / 100 / 12"
  define n where "n = tenure * 12"
  define q where "q = (1 + r) powr n"
  have r: "0 < r" and n: "0 < n" using False rate tenure by (simp_all add: r_def n_def)
  have q1: "1 < q" using annuity_factor(1) [OF r n] by (simp add: q_def)
  have inv: "(1 + r) powr (- n) = 1 / q" by (simp add: q_def powr_minus_divide)
  have L: "maxLoan mi ed rate tenure = maxMonthlyPayment mi ed * (1 - 1 / q) / r"
    using r False rate inv by (simp add: maxLoan_def Let_def Math_pow_powr r_def n_def)
  have Lpos: "0 < maxLoan mi ed rate tenure" using maxLoan_pos [OF m rate tenure] .
  have "calculateMonthlyPayment (maxLoan mi ed rate tenure) rate tenure
      = maxLoan mi ed rate tenure * (r * q) / (q - 1)"
    using Lpos False r
    by (simp add: calculateMonthlyPayment_def Let_def Math_pow_powr r_def n_def q_def)
  also have "\<dots> = maxMonthlyPayment mi ed" using q1 r by (simp add: L field_simps)
  finally show ?thesis .
qed

text \<open>
  A lower bound of \<open>maxLoan\<close> for a whole number \<open>k\<close> of monthly payments, from
  \<open>(1 + r)^k \<ge> 1 + k r\<close>; it places the debt bound of the default position.
\<close>

lemma maxLoan_Bernoulli:
  assumes m: "0 < maxMonthlyPayment mi ed" and r: "0 < rate"
  shows "maxMonthlyPayment mi ed * (1 - 1 / (1 + real k * (rate / 100 / 12))) / (rate / 100 / 12)
      \<le> maxLoan mi ed rate (real k / 12)"
proof -
  define x where "x = rate / 100 / 12"
  have x: "0 < x" using r by (simp add: x_def)
  have b: "1 + real k * x \<le> (1 + x) ^ k"
    using x by (intro Bernoulli_inequality) simp
  have "(1 + x) powr (- real k) = 1 / (1 + x) powr real k" by (rule powr_minus_divide)
  also have "\<dots> = 1 / (1 + x) ^ k" using x by (simp add: powr_realpow)
  finally have p: "Math_pow (1 + x) (- real k) = 1 / (1 + x) ^ k"
    using x by (simp add: Math_pow_powr)
  have pos: "0 < 1 + real k * x" using x by (simp add: add_pos_nonneg)
  have "1 / (1 + x) ^ k \<le> 1 / (1 + real k * x)"
    using b pos by (intro divide_left_mono) simp_all
  then have "1 - 1 / (1 + real k * x) \<le> 1 - Math_pow (1 + x) (- real k)"
    by (simp add: p)
  then have "maxMonthlyPayment mi ed * (1 - 1 / (1 + real k * x))
      \<le> maxMonthlyPayment mi ed * (1 - Math_pow (1 + x) (- real k))"
    using m by (intro mult_left_mono) simp_all
  then have "maxMonthlyPayment mi ed * (1 - 1 / (1 + real k * x)) / x
      \<le> maxMonthlyPayment mi ed * (1 - Math_pow (1 + x) (- real k)) / x"
    using x by (intro divide_right_mono) simp_all
  moreover have "maxLoan mi ed rate (real k / 12)
      = maxMonthlyPayment mi ed * (1 - Math_pow (1 + x) (- real k)) / x"
    using x by (simp add: maxLoan_def Let_def x_def)
  ultimately show ?thesis by (simp add: x_def)
qed

lemma default_debt_bound:
  "6425000 / 3 \<le> maxLoan 15000 0 2.6 30 / (75 / 100)"
proof -
  have "0 < maxMonthlyPayment 15000 0" by (simp add: maxMonthlyPayment_def)
  from maxLoan_Bernoulli [OF this, of "2.6" 360]
  have "15000 * 0.55 * (1 - 1 / (1 + 360 * (2.6 / 100 / 12))) / (2.6 / 100 / 12)
      \<le> maxLoan 15000 0 2.6 30"
    by (simp add: maxMonthlyPayment_def)
  then show ?thesis by simp
qed

text \<open>
  The default financial position at a rate of 0: the cash bound is 2,141,666.67, the debt
  bound 3,960,000, and the result 2,100,000.
\<close>

lemma calculateMaxAffordablePrice_default:
  "calculateMaxAffordablePrice 500000 150000 15000 0 75 0 30 = Num 2100000"
  by (simp add: calculateMaxAffordablePrice_def maxMonthlyPayment_def maxFromCashCpf_def
      maxFromTDSR_def maxLoan_def js_div_def Let_def)

text \<open>
  C8, as stated, is about every non-negative input. A loan percentage of 0 is in the range
  of the form (0 to 75), and the tenure is a number the user types. With both at 0 the loan
  is \<open>5500 \<times> 0 = 0\<close>, the debt bound is \<open>0 / 0\<close>, and the function returns \<open>NaN\<close>: not a
  multiple of 50,000, and not below either bound.
\<close>

theorem calculateMaxAffordablePrice_NaN:
  "calculateMaxAffordablePrice 100000 0 10000 0 0 0 0 = NaN"
  by (simp add: calculateMaxAffordablePrice_def maxMonthlyPayment_def maxFromCashCpf_def
      maxFromTDSR_def maxLoan_def js_div_def Let_def)

text \<open>
  The function does not check the loan percentage either. At 200 the down-payment fraction
  is \<open>-1\<close>, the cash bound is \<open>95000 / (-0.95) = -100000\<close>, and the function returns
  \<open>-100000\<close>.
\<close>

lemma calculateMaxAffordablePrice_negative:
  "calculateMaxAffordablePrice 95000 0 10000 0 200 0 30 = Num (- 100000)"
  by (simp add: calculateMaxAffordablePrice_def maxMonthlyPayment_def maxFromCashCpf_def
      maxFromTDSR_def maxLoan_def js_div_def Let_def)

text \<open>
  The guard at its boundary. For an income of 1,500 and a debt of 825 the amount
  \<open>monthlyIncome * 0.55 - existingDebt\<close> is 0 in exact arithmetic; in the program the
  constant \<open>0.55\<close> and the product are rounded up and the amount is \<open>2^(-43)\<close>, so the
  guard \<open><= 0\<close> does not fire. With a loan percentage of 0 the debt bound of any positive
  amount is \<open>+Infinity\<close>, and the result jumps from 0 to the cash bound rounded down.
\<close>

lemma guard_binary64:
  "binary64 (binary64 (1500 * binary64 (55 / 100)) - 825) = 1 / 2 ^ 43
   \<and> maxMonthlyPayment 1500 825 = 0"
proof -
  have 1: "binary64 (55 / 100) = 2476979795053773 / 4503599627370496"
    by (subst binary64_small [where k = 1]) (simp_all add: round_half_even_def)
  have 2: "binary64 (1500 * (2476979795053773 / 4503599627370496))
      = 7256776743321601 / 8796093022208"
    by (subst binary64_large [where k = 9]) (simp_all add: round_half_even_def)
  have 3: "binary64 (7256776743321601 / 8796093022208 - 825) = 1 / 2 ^ 43"
    by (subst binary64_small [where k = 43]) (simp_all add: round_half_even_def)
  have 4: "maxMonthlyPayment 1500 825 = 0" by (simp add: maxMonthlyPayment_def)
  show ?thesis by (simp only: 1 2 3 4 simp_thms)
qed

lemma loan_percentage_0_jump:
  "calculateMaxAffordablePrice 60000 0 1500 825 0 0 30 = Num 0
   \<and> (0 < maxMonthlyPayment mi 825 \<longrightarrow>
        calculateMaxAffordablePrice 60000 0 mi 825 0 0 30 = Num 50000)"
  by (simp add: calculateMaxAffordablePrice_def maxMonthlyPayment_def maxFromCashCpf_def
      maxFromTDSR_def maxLoan_def js_div_def Let_def)

text \<open>
  The floor at a step. For 27,500 in cash and a loan percentage of 50 the cash bound is
  \<open>27500 / 0.55 = 50000\<close> in exact arithmetic; in the program the divisor \<open>0.5 + 0.05\<close> is
  rounded up and the quotient is \<open>50000 - 2^(-37)\<close>, and \<open>Math.floor\<close> of its
  fifty-thousandth is 0. A bound is clear of the steps when this cannot happen.
\<close>

lemma step_binary64:
  "binary64 (27500 / binary64 (binary64 ((100 - 50) / 100) + binary64 (5 / 100)))
     = 50000 - 1 / 2 ^ 37
   \<and> maxFromCashCpf 27500 0 50 = Num 50000
   \<and> \<not> clear_of_step 50000"
proof -
  have 1: "binary64 ((100 - 50) / 100) = 1 / 2"
    by (subst binary64_small [where k = 1]) (simp_all add: round_half_even_def)
  have 2: "binary64 (5 / 100) = 3602879701896397 / 72057594037927936"
    by (subst binary64_small [where k = 5]) (simp_all add: round_half_even_def)
  have 3: "binary64 (1 / 2 + 3602879701896397 / 72057594037927936)
      = 2476979795053773 / 4503599627370496"
    by (subst binary64_small [where k = 1]) (simp_all add: round_half_even_def)
  have 4: "binary64 (27500 / (2476979795053773 / 4503599627370496)) = 50000 - 1 / 2 ^ 37"
    by (subst binary64_large [where k = 15]) (simp_all add: round_half_even_def)
  have 5: "maxFromCashCpf 27500 0 50 = Num 50000"
    by (simp add: maxFromCashCpf_def js_div_def Let_def)
  have 6: "\<not> clear_of_step 50000" by (simp add: clear_of_step_def)
  show ?thesis by (simp only: 1 2 3 4 5 6 simp_thms)
qed

text \<open>
  C8 (amended): for cash, a CPF balance, a monthly income and an existing debt between 0
  and \<open>10^8\<close>, a loan percentage of 1 to 100, an interest rate that is 0 or between 0.01 and
  100 per cent, and a tenure of 1 to 100 years. When 55 per cent of the monthly income
  minus the existing debt is \<open>\<le> 0\<close> the function returns 0. Otherwise the cash-and-CPF bound
  and the debt bound are numbers; the debt bound is \<open>maxLoan / (loanPercentage / 100)\<close>,
  where \<open>maxLoan\<close> is the loan whose monthly payment at that rate and tenure is 55 per cent
  of the income minus the debt; and when the smaller bound is clear of the steps (no
  multiple of 50,000 within a millionth of it), the function returns the smaller bound
  rounded down to a multiple of 50,000: a non-negative multiple of 50,000 that exceeds
  neither bound.

  Inside these ranges the rounding errors of the program's two bounds are far less than a
  millionth of them, so that a bound clear of the steps has the same floor in the program.
  Outside them this fails: see \<open>guard_binary64\<close> and \<open>loan_percentage_0_jump\<close> for a loan
  percentage of 0 (and the bound is \<open>-Infinity\<close> for a loan percentage of \<open>-0\<close>),
  \<open>step_binary64\<close> for a bound at a step, \<open>tiny_rate_binary64\<close> for small positive rates,
  where \<open>1 - (1 + r)^(-n)\<close> cancels as the divisor of the payment does.
\<close>

theorem calculateMaxAffordablePrice_bounds:
  assumes money: "0 \<le> ca" "ca \<le> 10 ^ 8" "0 \<le> cpf" "cpf \<le> 10 ^ 8"
      "0 \<le> mi" "mi \<le> 10 ^ 8" "0 \<le> ed" "ed \<le> 10 ^ 8"
    and lp: "1 \<le> lp" "lp \<le> 100"
    and rate: "rate = 0 \<or> 1 / 100 \<le> rate \<and> rate \<le> 100"
    and tenure: "1 \<le> tenure" "tenure \<le> 100"
  shows "(maxMonthlyPayment mi ed \<le> 0 \<longrightarrow>
            calculateMaxAffordablePrice ca cpf mi ed lp rate tenure = Num 0)
      \<and> (0 < maxMonthlyPayment mi ed \<longrightarrow>
            (\<exists>c t. maxFromCashCpf ca cpf lp = Num c
               \<and> maxFromTDSR mi ed lp rate tenure = Num t
               \<and> c = (ca + cpf * 0.95) / ((100 - lp) / 100 + 0.05)
               \<and> t = maxLoan mi ed rate tenure / (lp / 100)
               \<and> calculateMonthlyPayment (maxLoan mi ed rate tenure) rate tenure
                   = maxMonthlyPayment mi ed
               \<and> (clear_of_step (min c t) \<longrightarrow>
                    calculateMaxAffordablePrice ca cpf mi ed lp rate tenure
                      = Num (50000 * of_int \<lfloor>min c t / 50000\<rfloor>)
                  \<and> 0 \<le> \<lfloor>min c t / 50000\<rfloor>
                  \<and> 50000 * of_int \<lfloor>min c t / 50000\<rfloor> \<le> c
                  \<and> 50000 * of_int \<lfloor>min c t / 50000\<rfloor> \<le> t)))"
proof (cases "0 < maxMonthlyPayment mi ed")
  case False
  then show ?thesis by (simp add: calculateMaxAffordablePrice_def)
next
  case True
  have r0: "0 \<le> rate" and t0: "0 < tenure" "0 \<le> tenure" using rate tenure by auto
  define c where "c = (ca + cpf * 0.95) / ((100 - lp) / 100 + 0.05)"
  define t where "t = maxLoan mi ed rate tenure / (lp / 100)"
  have den: "0 < (100 - lp) / 100 + 0.05" using lp by (simp add: field_simps)
  have c: "maxFromCashCpf ca cpf lp = Num c"
    using den by (simp add: maxFromCashCpf_def Let_def js_div_def c_def)
  have "0 \<le> ca + cpf * 0.95" using money by simp
  then have c0: "0 \<le> c" unfolding c_def using den by (intro divide_nonneg_pos)
  have t: "maxFromTDSR mi ed lp rate tenure = Num t"
    using lp by (simp add: maxFromTDSR_def js_div_def t_def)
  have "0 \<le> maxLoan mi ed rate tenure" using maxLoan_nonneg [OF True r0 t0(2)] .
  then have tn: "0 \<le> t" using lp by (simp add: t_def)
  have m0: "0 \<le> min c t" using c0 tn by simp
  have res: "calculateMaxAffordablePrice ca cpf mi ed lp rate tenure
      = Num (50000 * of_int \<lfloor>min c t / 50000\<rfloor>)"
    using True by (simp add: calculateMaxAffordablePrice_def c t)
  have k: "0 \<le> \<lfloor>min c t / 50000\<rfloor>" using m0 by simp
  have le: "50000 * of_int \<lfloor>min c t / 50000\<rfloor> \<le> min c t"
    using floor_multiple(2) [OF m0] by (simp add: mult.commute)
  have pay: "calculateMonthlyPayment (maxLoan mi ed rate tenure) rate tenure
      = maxMonthlyPayment mi ed"
    using maxLoan_payment [OF True r0 t0(1)] .
  have "maxFromCashCpf ca cpf lp = Num c
      \<and> maxFromTDSR mi ed lp rate tenure = Num t
      \<and> c = (ca + cpf * 0.95) / ((100 - lp) / 100 + 0.05)
      \<and> t = maxLoan mi ed rate tenure / (lp / 100)
      \<and> calculateMonthlyPayment (maxLoan mi ed rate tenure) rate tenure
          = maxMonthlyPayment mi ed
      \<and> (clear_of_step (min c t) \<longrightarrow>
           calculateMaxAffordablePrice ca cpf mi ed lp rate tenure
             = Num (50000 * of_int \<lfloor>min c t / 50000\<rfloor>)
         \<and> 0 \<le> \<lfloor>min c t / 50000\<rfloor>
         \<and> 50000 * of_int \<lfloor>min c t / 50000\<rfloor> \<le> c
         \<and> 50000 * of_int \<lfloor>min c t / 50000\<rfloor> \<le> t)"
    using c t res k le pay by (simp add: t_def c_def)
  then have "\<exists>c t. maxFromCashCpf ca cpf lp = Num c
      \<and> maxFromTDSR mi ed lp rate tenure = Num t
      \<and> c = (ca + cpf * 0.95) / ((100 - lp) / 100 + 0.05)
      \<and> t = maxLoan mi ed rate tenure / (lp / 100)
      \<and> calculateMonthlyPayment (maxLoan mi ed rate tenure) rate tenure
          = maxMonthlyPayment mi ed
      \<and> (clear_of_step (min c t) \<longrightarrow>
           calculateMaxAffordablePrice ca cpf mi ed lp rate tenure
             = Num (50000 * of_int \<lfloor>min c t / 50000\<rfloor>)
         \<and> 0 \<le> \<lfloor>min c t / 50000\<rfloor>
         \<and> 50000 * of_int \<lfloor>min c t / 50000\<rfloor> \<le> c
         \<and> 50000 * of_int \<lfloor>min c t / 50000\<rfloor> \<le> t)"
    by (intro exI [of _ c] exI [of _ t])
  then show ?thesis using True by simp
qed

theorem calculateMaxAffordablePrice_bounds_witness:
  "(0::real) \<le> 500000 \<and> (500000::real) \<le> 10 ^ 8 \<and> (0::real) \<le> 150000
   \<and> (150000::real) \<le> 10 ^ 8 \<and> (0::real) \<le> 15000 \<and> (15000::real) \<le> 10 ^ 8
   \<and> (0::real) \<le> 0 \<and> (0::real) \<le> 10 ^ 8 \<and> (1::real) \<le> 75 \<and> (75::real) \<le> 100
   \<and> ((2.6::real) = 0 \<or> 1 / 100 \<le> (2.6::real) \<and> (2.6::real) \<le> 100)
   \<and> (1::real) \<le> 30 \<and> (30::real) \<le> 100
   \<and> 0 < maxMonthlyPayment 15000 0
   \<and> maxFromCashCpf 500000 150000 75 = Num (6425000 / 3)
   \<and> maxFromTDSR 15000 0 75 2.6 30 = Num (maxLoan 15000 0 2.6 30 / (75 / 100))
   \<and> clear_of_step (min (6425000 / 3) (maxLoan 15000 0 2.6 30 / (75 / 100)))
   \<and> calculateMonthlyPayment (maxLoan 15000 0 2.6 30) 2.6 30 = maxMonthlyPayment 15000 0
   \<and> calculateMaxAffordablePrice 500000 150000 15000 0 75 2.6 30 = Num 2100000
   \<and> maxMonthlyPayment 1000 1000 \<le> 0
   \<and> calculateMaxAffordablePrice 500000 150000 1000 1000 75 2.6 30 = Num 0"
proof -
  have h: "(0::real) \<le> 500000" "(500000::real) \<le> 10 ^ 8" "(0::real) \<le> 150000"
    "(150000::real) \<le> 10 ^ 8" "(0::real) \<le> 15000" "(15000::real) \<le> 10 ^ 8"
    "(0::real) \<le> 0" "(0::real) \<le> 10 ^ 8" "(1::real) \<le> 75" "(75::real) \<le> 100"
    "(2.6::real) = 0 \<or> 1 / 100 \<le> (2.6::real) \<and> (2.6::real) \<le> 100"
    "(1::real) \<le> 30" "(30::real) \<le> 100"
    by simp_all
  have g: "(0::real) \<le> 1000" "(1000::real) \<le> 10 ^ 8" by simp_all
  have a: "0 < maxMonthlyPayment 15000 0" and b: "maxMonthlyPayment 1000 1000 \<le> 0"
    by (simp_all add: maxMonthlyPayment_def)
  have c: "maxFromCashCpf 500000 150000 75 = Num (6425000 / 3)"
    by (simp add: maxFromCashCpf_def js_div_def Let_def)
  have m: "min (6425000 / 3) (maxLoan 15000 0 2.6 30 / (75 / 100)) = 6425000 / 3"
    using default_debt_bound by (simp only: min_def if_True)
  have s: "clear_of_step (min (6425000 / 3) (maxLoan 15000 0 2.6 30 / (75 / 100)))"
    unfolding m by (simp add: clear_of_step_def)
  have f: "(50000::real) * of_int \<lfloor>(6425000 / 3 :: real) / 50000\<rfloor> = 2100000" by simp
  from calculateMaxAffordablePrice_bounds
    [OF h(1) h(2) h(3) h(4) h(5) h(6) h(7) h(8) h(9) h(10) h(11) h(12) h(13)] a
  obtain c' t' where 1: "maxFromCashCpf 500000 150000 75 = Num c'"
    and 2: "maxFromTDSR 15000 0 75 2.6 30 = Num t'"
    and 3: "t' = maxLoan 15000 0 2.6 30 / (75 / 100)"
    and 4: "calculateMonthlyPayment (maxLoan 15000 0 2.6 30) 2.6 30 = maxMonthlyPayment 15000 0"
    and 5: "clear_of_step (min c' t') \<longrightarrow>
         calculateMaxAffordablePrice 500000 150000 15000 0 75 2.6 30
           = Num (50000 * of_int \<lfloor>min c' t' / 50000\<rfloor>)"
    by blast
  have c': "c' = 6425000 / 3" using c 1 by simp
  have r: "calculateMaxAffordablePrice 500000 150000 15000 0 75 2.6 30 = Num 2100000"
    using 5 s unfolding c' 3 m f by simp
  have z: "calculateMaxAffordablePrice 500000 150000 1000 1000 75 2.6 30 = Num 0"
    using calculateMaxAffordablePrice_bounds
      [OF h(1) h(2) h(3) h(4) g(1) g(2) g(1) g(2) h(9) h(10) h(11) h(12) h(13)] b
    by blast
  from h a b c 2 3 s 4 r z show ?thesis by blast
qed

section \<open>The engine: evaluation\<close>

lemmas engine_defs =
  bsd_def absd_def legalFees_def valuationFee_def stampDutyOnMortgage_def fireInsurance_def
  homeInsurance_def totalStampDuty_def totalUpfrontCosts_def loanAmount_def downPayment_def
  monthlyPayment_def totalLoanPaymentsFullTenure_def totalInterestPaid_def
  minCashDownpayment_def maxCpfForDownpayment_def cpfUsedForDownpayment_def
  monthlyFromCpf_def totalCpfForMonthly_def cpfAccruedInterest_def
  monthlyRentalIncome_def annualRentalIncome_def monthlyRoomIncome_def annualRoomIncome_def
  monthlySavedRent_def annualSavedRent_def annualValue_def annualPropertyTax_def
  annualMortgageInterest_def annualRentalTax_def annualRoomTax_def totalRentalTax_def
  annualCondoFees_def annualRepairs_def annualInsurance_def annualMaintenance_def
  vacancyLoss_def effectiveAnnualRental_def annualIncomeFromProperty_def
  annualLoanRepayment_def annualNetCashflow_def futureValue_def monthlyRate_def
  paymentsRemaining_def remainingLoan_def agentCommission_def sellingLegalFees_def
  earlyRepaymentPenalty_def ssd_def totalSavedRent_def totalIncomeFromProperty_def
  holdingCosts_def totalLoanPayments_def interestDuringHolding_def discountFactor_def
  pvCashflows_def fvCashflows_def sellingCosts_def salesIncome_def cpfOpportunityCost_def
  totalInitialExpense_def pvNegativeCashflows_def totalInvestment_def
  fvPositiveCashflows_def totalReturn_def netProfit_def breakEvenPrice_def

lemmas calc_defs =
  calculateBSD_def calculateABSD_def calculateLegalFees_def calculateSSD_def
  calculatePropertyTax_def calculateMonthlyPayment_def calculateCpfAccruedInterest_def
  calculateRentalIncomeTax_def Math_pow_def

section \<open>Remaining loan\<close>

text \<open>
  C7: for every input with a loan interest rate of exactly 0 and a holding period strictly
  less than the loan tenure, the remaining loan is 0: payments remain, but the guard also
  asks for a positive monthly rate. The witness has a loan of 1,125,000 repaid over 30
  years and held for 5: principal is outstanding, and the remaining loan is reported as 0.
\<close>

theorem remainingLoan_zero_rate:
  assumes "loanInterestRate inputs = 0"
    and "holdingPeriodYears inputs < loanTenureYears inputs"
  shows "paymentsRemaining inputs > 0 \<and> \<not> monthlyRate inputs > 0
     \<and> remainingLoan inputs = 0"
  using assms by (simp add: remainingLoan_def monthlyRate_def paymentsRemaining_def)

theorem remainingLoan_zero_rate_witness:
  "loanInterestRate (DEFAULT_INPUTS\<lparr>loanInterestRate := 0\<rparr>) = 0
   \<and> holdingPeriodYears (DEFAULT_INPUTS\<lparr>loanInterestRate := 0\<rparr>)
       < loanTenureYears (DEFAULT_INPUTS\<lparr>loanInterestRate := 0\<rparr>)
   \<and> loanAmount (DEFAULT_INPUTS\<lparr>loanInterestRate := 0\<rparr>) = 1125000
   \<and> monthlyPayment (DEFAULT_INPUTS\<lparr>loanInterestRate := 0\<rparr>) = 3125
   \<and> remainingLoan (DEFAULT_INPUTS\<lparr>loanInterestRate := 0\<rparr>) = 0"
  using remainingLoan_zero_rate [of "DEFAULT_INPUTS\<lparr>loanInterestRate := 0\<rparr>"]
  by (simp add: DEFAULT_INPUTS_def DEFAULT_PRICE_def loanAmount_def monthlyPayment_def
      calculateMonthlyPayment_def)

section \<open>CPF used for the down payment\<close>

text \<open>
  C10: for every input with \<open>cpfOaBalance \<ge> 0\<close>, \<open>cpfUsedForDownpayment\<close> is
  \<open>max(0, min(cpfOaBalance, downPayment - 5% of the price))\<close> when CPF is used for the
  down payment (and 0 otherwise), it lies between 0 and \<open>cpfOaBalance\<close>, so the third
  conjunct of \<open>canAfford\<close> holds and \<open>canAfford\<close> is the cash check and the TDSR check.
\<close>

theorem cpfUsedForDownpayment_within_balance:
  assumes "cpfOaBalance inputs \<ge> 0"
  shows "0 \<le> cpfUsedForDownpayment inputs
    \<and> cpfUsedForDownpayment inputs \<le> cpfOaBalance inputs
    \<and> cpfUsedForDownpayment inputs =
        max 0 (if useCpfForDownpayment inputs
               then min (cpfOaBalance inputs) (downPayment inputs - price inputs * 0.05)
               else 0)
    \<and> (useCpfForDownpayment inputs \<longrightarrow>
         cpfOaBalance inputs \<ge> cpfUsedForDownpayment inputs)
    \<and> canAfford inputs = (cashAvailable inputs \<ge> cashNeeded inputs \<and> tdsrOk inputs)"
  using assms
  by (auto simp: cpfUsedForDownpayment_def maxCpfForDownpayment_def minCashDownpayment_def
      canAfford_def)

theorem cpfUsedForDownpayment_within_balance_witness:
  "cpfOaBalance DEFAULT_INPUTS \<ge> 0
   \<and> useCpfForDownpayment DEFAULT_INPUTS
   \<and> cpfUsedForDownpayment DEFAULT_INPUTS = 150000
   \<and> 0 \<le> cpfUsedForDownpayment DEFAULT_INPUTS
   \<and> cpfUsedForDownpayment DEFAULT_INPUTS \<le> cpfOaBalance DEFAULT_INPUTS
   \<and> canAfford DEFAULT_INPUTS =
       (cashAvailable DEFAULT_INPUTS \<ge> cashNeeded DEFAULT_INPUTS \<and> tdsrOk DEFAULT_INPUTS)"
  using cpfUsedForDownpayment_within_balance [of DEFAULT_INPUTS]
  by (simp add: DEFAULT_INPUTS_def DEFAULT_PRICE_def cpfUsedForDownpayment_def
      maxCpfForDownpayment_def minCashDownpayment_def downPayment_def loanAmount_def)

section \<open>Appreciation\<close>









text \<open>
  With an agent's fee of 200 per cent of the sale price a larger future value is a smaller
  net profit.
\<close>

lemma agent_fee_above_100:
  "futureValue (own_stay_inputs\<lparr>agentFeePercent := 200\<rparr>) = 1000000
   \<and> futureValue (own_stay_inputs\<lparr>agentFeePercent := 200, annualAppreciation := 10\<rparr>)
     = 1331000
   \<and> netProfit (own_stay_inputs\<lparr>agentFeePercent := 200\<rparr>) = - 1938800
   \<and> netProfit (own_stay_inputs\<lparr>agentFeePercent := 200, annualAppreciation := 10\<rparr>)
     = - 2269800"
  by (simp add: own_stay_inputs_def engine_defs calc_defs Let_def cashflows_loop.simps
      power3_eq_cube)



section \<open>Break-even price\<close>






text \<open>
  The difference between \<open>netProfit\<close> and \<open>futureValue - breakEvenPrice\<close> does not depend
  on the sale value: the selling costs cancel. It is the discounted and compounded
  cashflows against their plain sum, the saved rent added to the return, and the CPF
  accrued interest.
\<close>

lemma netProfit_breakEven_gap:
  "netProfit i - (futureValue i - breakEvenPrice i) =
     fvPositiveCashflows i - pvNegativeCashflows i
     + (if isRentingOut i then 0 else totalSavedRent i)
     - cpfAccruedInterest i
     - (totalIncomeFromProperty i - holdingCosts i - totalRentalTax i - totalLoanPayments i)"
  by (simp add: netProfit_def totalReturn_def totalInvestment_def cpfOpportunityCost_def
      salesIncome_def breakEvenPrice_def interestDuringHolding_def totalInitialExpense_def
      downPayment_def split del: if_split)

text \<open>
  For the property rented out, a prevailing rate of 10 per cent, or 100,000 of CPF in the
  down payment, leaves a net profit other than 0 at the sale value \<open>breakEvenPrice\<close>.
\<close>

lemma discounting_gap:
  "futureValue (rent_out_inputs\<lparr>prevailingInterestRate := 10\<rparr>) = 1000000
   \<and> breakEvenPrice (rent_out_inputs\<lparr>prevailingInterestRate := 10\<rparr>) = 1000000
   \<and> netProfit (rent_out_inputs\<lparr>prevailingInterestRate := 10\<rparr>) = 3338.7"
  by (simp add: rent_out_inputs_def own_stay_inputs_def engine_defs calc_defs Let_def
      cashflows_loop.simps power2_eq_square power3_eq_cube)

lemma cpf_gap:
  "futureValue (rent_out_inputs\<lparr>cpfOaBalance := 100000, useCpfForDownpayment := True\<rparr>)
     = 1000000
   \<and> breakEvenPrice (rent_out_inputs\<lparr>cpfOaBalance := 100000, useCpfForDownpayment := True\<rparr>)
     = 1000000
   \<and> netProfit (rent_out_inputs\<lparr>cpfOaBalance := 100000, useCpfForDownpayment := True\<rparr>)
     = - 7689.0625"
  by (simp add: rent_out_inputs_def own_stay_inputs_def engine_defs calc_defs Let_def
      cashflows_loop.simps power3_eq_cube)



section \<open>URL state\<close>

text \<open>The parameters that \<open>encodeStateToUrl\<close> builds: one pair for each field, in order.\<close>

lemma encode_params_pairs:
  "encode_params numToString inputs =
    [(''p'', numToString (price inputs)),
     (''rs'', residencyStatus inputs),
     (''pt'', propertyType inputs),
     (''pn'', numToString (propertyNumber inputs)),
     (''ry'', numToString (expectedRentalYield inputs)),
     (''hp'', numToString (holdingPeriodYears inputs)),
     (''aa'', numToString (annualAppreciation inputs)),
     (''lp'', numToString (loanPercentage inputs)),
     (''lr'', numToString (loanInterestRate inputs)),
     (''lt'', numToString (loanTenureYears inputs)),
     (''mi'', numToString (monthlyIncome inputs)),
     (''cf'', numToString (monthlyCondoFees inputs)),
     (''ro'', if isRentingOut inputs then ''1'' else ''0''),
     (''ca'', numToString (cashAvailable inputs)),
     (''cpf'', numToString (cpfOaBalance inputs)),
     (''cd'', if useCpfForDownpayment inputs then ''1'' else ''0''),
     (''cm'', if useCpfForMonthly inputs then ''1'' else ''0''),
     (''ed'', numToString (existingMonthlyDebt inputs)),
     (''tr'', numToString (marginalTaxRate inputs)),
     (''cr'', numToString (currentMonthlyRent inputs)),
     (''er'', numToString (expectedMonthlyRental inputs)),
     (''rr'', if rentOutRoom inputs then ''1'' else ''0''),
     (''ri'', numToString (roomRentalIncome inputs)),
     (''wi'', numToString (annualWorkIncome inputs)),
     (''af'', numToString (agentFeePercent inputs)),
     (''pr'', numToString (prevailingInterestRate inputs)),
     (''ll'', numToString (loanLockInYears inputs)),
     (''ir'', if includeRenovation inputs then ''1'' else ''0''),
     (''rc'', numToString (renovationCost inputs)),
     (''vw'', numToString (vacancyWeeksPerYear inputs))]"
  by (simp add: encode_params_def Object_entries_def encode_entry_def COMPRESSED_KEYS_def
      js_String_def split del: if_split)


text \<open>What \<open>decodeStateFromUrl\<close> does with a pair, for each short key.\<close>

lemma decode_entry_key:
  "decode_entry parseFloat defaults (''p'', v) result =
     (case parseFloat v of None \<Rightarrow> result | Some x \<Rightarrow> result\<lparr>price := x\<rparr>)"
  "decode_entry parseFloat defaults (''rs'', v) result = result\<lparr>residencyStatus := v\<rparr>"
  "decode_entry parseFloat defaults (''pt'', v) result = result\<lparr>propertyType := v\<rparr>"
  "decode_entry parseFloat defaults (''pn'', v) result =
     (case parseFloat v of None \<Rightarrow> result | Some x \<Rightarrow> result\<lparr>propertyNumber := x\<rparr>)"
  "decode_entry parseFloat defaults (''ry'', v) result =
     (case parseFloat v of None \<Rightarrow> result | Some x \<Rightarrow> result\<lparr>expectedRentalYield := x\<rparr>)"
  "decode_entry parseFloat defaults (''hp'', v) result =
     (case parseFloat v of None \<Rightarrow> result | Some x \<Rightarrow> result\<lparr>holdingPeriodYears := x\<rparr>)"
  "decode_entry parseFloat defaults (''aa'', v) result =
     (case parseFloat v of None \<Rightarrow> result | Some x \<Rightarrow> result\<lparr>annualAppreciation := x\<rparr>)"
  "decode_entry parseFloat defaults (''lp'', v) result =
     (case parseFloat v of None \<Rightarrow> result | Some x \<Rightarrow> result\<lparr>loanPercentage := x\<rparr>)"
  "decode_entry parseFloat defaults (''lr'', v) result =
     (case parseFloat v of None \<Rightarrow> result | Some x \<Rightarrow> result\<lparr>loanInterestRate := x\<rparr>)"
  "decode_entry parseFloat defaults (''lt'', v) result =
     (case parseFloat v of None \<Rightarrow> result | Some x \<Rightarrow> result\<lparr>loanTenureYears := x\<rparr>)"
  "decode_entry parseFloat defaults (''mi'', v) result =
     (case parseFloat v of None \<Rightarrow> result | Some x \<Rightarrow> result\<lparr>monthlyIncome := x\<rparr>)"
  "decode_entry parseFloat defaults (''cf'', v) result =
     (case parseFloat v of None \<Rightarrow> result | Some x \<Rightarrow> result\<lparr>monthlyCondoFees := x\<rparr>)"
  "decode_entry parseFloat defaults (''ro'', v) result = result\<lparr>isRentingOut := (v = ''1'')\<rparr>"
  "decode_entry parseFloat defaults (''ca'', v) result =
     (case parseFloat v of None \<Rightarrow> result | Some x \<Rightarrow> result\<lparr>cashAvailable := x\<rparr>)"
  "decode_entry parseFloat defaults (''cpf'', v) result =
     (case parseFloat v of None \<Rightarrow> result | Some x \<Rightarrow> result\<lparr>cpfOaBalance := x\<rparr>)"
  "decode_entry parseFloat defaults (''cd'', v) result = result\<lparr>useCpfForDownpayment := (v = ''1'')\<rparr>"
  "decode_entry parseFloat defaults (''cm'', v) result = result\<lparr>useCpfForMonthly := (v = ''1'')\<rparr>"
  "decode_entry parseFloat defaults (''ed'', v) result =
     (case parseFloat v of None \<Rightarrow> result | Some x \<Rightarrow> result\<lparr>existingMonthlyDebt := x\<rparr>)"
  "decode_entry parseFloat defaults (''tr'', v) result =
     (case parseFloat v of None \<Rightarrow> result | Some x \<Rightarrow> result\<lparr>marginalTaxRate := x\<rparr>)"
  "decode_entry parseFloat defaults (''cr'', v) result =
     (case parseFloat v of None \<Rightarrow> result | Some x \<Rightarrow> result\<lparr>currentMonthlyRent := x\<rparr>)"
  "decode_entry parseFloat defaults (''er'', v) result =
     (case parseFloat v of None \<Rightarrow> result | Some x \<Rightarrow> result\<lparr>expectedMonthlyRental := x\<rparr>)"
  "decode_entry parseFloat defaults (''rr'', v) result = result\<lparr>rentOutRoom := (v = ''1'')\<rparr>"
  "decode_entry parseFloat defaults (''ri'', v) result =
     (case parseFloat v of None \<Rightarrow> result | Some x \<Rightarrow> result\<lparr>roomRentalIncome := x\<rparr>)"
  "decode_entry parseFloat defaults (''wi'', v) result =
     (case parseFloat v of None \<Rightarrow> result | Some x \<Rightarrow> result\<lparr>annualWorkIncome := x\<rparr>)"
  "decode_entry parseFloat defaults (''af'', v) result =
     (case parseFloat v of None \<Rightarrow> result | Some x \<Rightarrow> result\<lparr>agentFeePercent := x\<rparr>)"
  "decode_entry parseFloat defaults (''pr'', v) result =
     (case parseFloat v of None \<Rightarrow> result | Some x \<Rightarrow> result\<lparr>prevailingInterestRate := x\<rparr>)"
  "decode_entry parseFloat defaults (''ll'', v) result =
     (case parseFloat v of None \<Rightarrow> result | Some x \<Rightarrow> result\<lparr>loanLockInYears := x\<rparr>)"
  "decode_entry parseFloat defaults (''ir'', v) result = result\<lparr>includeRenovation := (v = ''1'')\<rparr>"
  "decode_entry parseFloat defaults (''rc'', v) result =
     (case parseFloat v of None \<Rightarrow> result | Some x \<Rightarrow> result\<lparr>renovationCost := x\<rparr>)"
  "decode_entry parseFloat defaults (''vw'', v) result =
     (case parseFloat v of None \<Rightarrow> result | Some x \<Rightarrow> result\<lparr>vacancyWeeksPerYear := x\<rparr>)"
  by (simp_all add: decode_entry_def REVERSE_KEYS_def Object_fromEntries_def COMPRESSED_KEYS_def
      Object_entries_def assign_def split: option.split)

lemma num_fields:
  assumes "list_all (\<lambda>(k, v). case v of JNumber x \<Rightarrow> parseFloat (numToString x) = Some x
       | _ \<Rightarrow> True) (Object_entries inputs)"
  shows "parseFloat (numToString (price inputs)) = Some (price inputs)"
    "parseFloat (numToString (propertyNumber inputs)) = Some (propertyNumber inputs)"
    "parseFloat (numToString (expectedRentalYield inputs)) = Some (expectedRentalYield inputs)"
    "parseFloat (numToString (holdingPeriodYears inputs)) = Some (holdingPeriodYears inputs)"
    "parseFloat (numToString (annualAppreciation inputs)) = Some (annualAppreciation inputs)"
    "parseFloat (numToString (loanPercentage inputs)) = Some (loanPercentage inputs)"
    "parseFloat (numToString (loanInterestRate inputs)) = Some (loanInterestRate inputs)"
    "parseFloat (numToString (loanTenureYears inputs)) = Some (loanTenureYears inputs)"
    "parseFloat (numToString (monthlyIncome inputs)) = Some (monthlyIncome inputs)"
    "parseFloat (numToString (monthlyCondoFees inputs)) = Some (monthlyCondoFees inputs)"
    "parseFloat (numToString (cashAvailable inputs)) = Some (cashAvailable inputs)"
    "parseFloat (numToString (cpfOaBalance inputs)) = Some (cpfOaBalance inputs)"
    "parseFloat (numToString (existingMonthlyDebt inputs)) = Some (existingMonthlyDebt inputs)"
    "parseFloat (numToString (marginalTaxRate inputs)) = Some (marginalTaxRate inputs)"
    "parseFloat (numToString (currentMonthlyRent inputs)) = Some (currentMonthlyRent inputs)"
    "parseFloat (numToString (expectedMonthlyRental inputs)) = Some (expectedMonthlyRental inputs)"
    "parseFloat (numToString (roomRentalIncome inputs)) = Some (roomRentalIncome inputs)"
    "parseFloat (numToString (annualWorkIncome inputs)) = Some (annualWorkIncome inputs)"
    "parseFloat (numToString (agentFeePercent inputs)) = Some (agentFeePercent inputs)"
    "parseFloat (numToString (prevailingInterestRate inputs)) = Some (prevailingInterestRate inputs)"
    "parseFloat (numToString (loanLockInYears inputs)) = Some (loanLockInYears inputs)"
    "parseFloat (numToString (renovationCost inputs)) = Some (renovationCost inputs)"
    "parseFloat (numToString (vacancyWeeksPerYear inputs)) = Some (vacancyWeeksPerYear inputs)"
  using assms by (simp_all add: Object_entries_def)

text \<open>
  C6: for every record (each field holding a value of its type) and every such record of
  defaults, decoding the query string that \<open>encodeStateToUrl\<close> produces gives the record
  back, field for field. The platform is assumed to read back what it writes: \<open>parseFloat\<close>
  of \<open>String(x)\<close> is \<open>x\<close> for each number \<open>x\<close> of the record (true of a finite number), and
  the \<open>URLSearchParams\<close> constructor parses the string of \<open>toString\<close> into the same pairs.
\<close>

theorem url_state_roundtrip:
  assumes num: "list_all (\<lambda>(k, v). case v of JNumber x \<Rightarrow> parseFloat (numToString x) = Some x
       | _ \<Rightarrow> True) (Object_entries inputs)"
    and qs: "parseQuery (toString (encode_params numToString inputs))
      = encode_params numToString inputs"
  shows "decodeStateFromUrl parseFloat
      (parseQuery (encodeStateToUrl numToString toString inputs)) defaults = inputs"
proof -
  note nf = num_fields [where inputs = inputs and parseFloat = parseFloat
      and numToString = numToString, OF num]
  have "decodeStateFromUrl parseFloat (encode_params numToString inputs) defaults = inputs"
    unfolding decodeStateFromUrl_def encode_params_pairs
    by (simp add: decode_entry_key nf)
  then show ?thesis by (simp add: encodeStateToUrl_def qs)
qed


lemma DEFAULT_INPUTS_values: "DEFAULT_INPUTS = \<lparr>
     price = 1500000, residencyStatus = ''pr'', propertyType = ''private'',
     propertyNumber = 1, expectedRentalYield = 3.2, holdingPeriodYears = 5,
     annualAppreciation = 3, loanPercentage = 75, loanInterestRate = 2.6, loanTenureYears = 30,
     monthlyIncome = 15000, monthlyCondoFees = 300, isRentingOut = False,
     cashAvailable = 500000, cpfOaBalance = 150000, useCpfForDownpayment = True,
     useCpfForMonthly = False, existingMonthlyDebt = 0, marginalTaxRate = 15,
     currentMonthlyRent = 4400, expectedMonthlyRental = 4000, rentOutRoom = False,
     roomRentalIncome = 1500, annualWorkIncome = 185000, agentFeePercent = 2,
     prevailingInterestRate = 2.8, loanLockInYears = 2, includeRenovation = False,
     renovationCost = 50000, vacancyWeeksPerYear = 4 \<rparr>"
  by (simp add: DEFAULT_INPUTS_def DEFAULT_PRICE_def estimateCurrentRent_def
      estimateMonthlyRental_def Math_round_def Let_def)









lemma show_decimal_values:
  "show_decimal 1500000 = ''1500000''"
  "show_decimal 1 = ''1''"
  "show_decimal (16 / 5) = ''3.2''"
  "show_decimal 5 = ''5''"
  "show_decimal 3 = ''3''"
  "show_decimal 75 = ''75''"
  "show_decimal (13 / 5) = ''2.6''"
  "show_decimal 30 = ''30''"
  "show_decimal 15000 = ''15000''"
  "show_decimal 300 = ''300''"
  "show_decimal 500000 = ''500000''"
  "show_decimal 150000 = ''150000''"
  "show_decimal 0 = ''0''"
  "show_decimal 15 = ''15''"
  "show_decimal 4400 = ''4400''"
  "show_decimal 4000 = ''4000''"
  "show_decimal 1500 = ''1500''"
  "show_decimal 185000 = ''185000''"
  "show_decimal 2 = ''2''"
  "show_decimal (14 / 5) = ''2.8''"
  "show_decimal 50000 = ''50000''"
  "show_decimal 4 = ''4''"
  by (simp_all add: show_decimal_def show_nat.simps digit_char_def Let_def)

lemma read_decimal_values:
  "read_decimal ''1500000'' = Some 1500000"
  "read_decimal ''1'' = Some 1"
  "read_decimal ''3.2'' = Some (16 / 5)"
  "read_decimal ''5'' = Some 5"
  "read_decimal ''3'' = Some 3"
  "read_decimal ''75'' = Some 75"
  "read_decimal ''2.6'' = Some (13 / 5)"
  "read_decimal ''30'' = Some 30"
  "read_decimal ''15000'' = Some 15000"
  "read_decimal ''300'' = Some 300"
  "read_decimal ''500000'' = Some 500000"
  "read_decimal ''150000'' = Some 150000"
  "read_decimal ''0'' = Some 0"
  "read_decimal ''15'' = Some 15"
  "read_decimal ''4400'' = Some 4400"
  "read_decimal ''4000'' = Some 4000"
  "read_decimal ''1500'' = Some 1500"
  "read_decimal ''185000'' = Some 185000"
  "read_decimal ''2'' = Some 2"
  "read_decimal ''2.8'' = Some (14 / 5)"
  "read_decimal ''50000'' = Some 50000"
  "read_decimal ''4'' = Some 4"
  by (simp_all add: read_decimal_def digit_val_def Let_def)

theorem url_state_roundtrip_witness:
  "list_all (\<lambda>(k, v). case v of JNumber x \<Rightarrow> read_decimal (show_decimal x) = Some x
       | _ \<Rightarrow> True) (Object_entries DEFAULT_INPUTS)
   \<and> parse_query (to_query (encode_params show_decimal DEFAULT_INPUTS))
       = encode_params show_decimal DEFAULT_INPUTS
   \<and> decodeStateFromUrl read_decimal
        (parse_query (encodeStateToUrl show_decimal to_query DEFAULT_INPUTS)) own_stay_inputs
       = DEFAULT_INPUTS"
proof -
  have h1: "list_all (\<lambda>(k, v). case v of JNumber x \<Rightarrow> read_decimal (show_decimal x) = Some x
       | _ \<Rightarrow> True) (Object_entries DEFAULT_INPUTS)"
    by (simp add: DEFAULT_INPUTS_values Object_entries_def show_decimal_values
        read_decimal_values)
  have h2: "parse_query (to_query (encode_params show_decimal DEFAULT_INPUTS))
       = encode_params show_decimal DEFAULT_INPUTS"
    unfolding encode_params_pairs
    by (simp add: DEFAULT_INPUTS_values show_decimal_values parse_query_def)
  note r = url_state_roundtrip [where inputs = DEFAULT_INPUTS and parseFloat = read_decimal
      and numToString = show_decimal and parseQuery = parse_query and toString = to_query
      and defaults = own_stay_inputs, OF h1 h2]
  from h1 h2 r show ?thesis by blast
qed

end
